theory Spec2Isabelle
  imports Main
begin

text \<open>
  A shallow embedding of the command and session layer of App Release Copilot, a
  TypeScript command-line tool: the command parser, the extraction of metadata from
  generated text, the export of \<open>store.config.json\<close>, the App Store URL helpers, the
  Copilot service with its streamed requests, result cache and model switch, and the
  double Ctrl+C protocol of the interactive loop. The definitions follow the source
  function by function; the properties come after them.
\<close>

section \<open>JavaScript strings\<close>

text \<open>
  A JavaScript string is a sequence of UTF-16 code units. The model covers the strings
  whose code units are below 256: one \<^typ>\<open>char\<close> per code unit, read as a Latin-1
  code point, so that \<open>length\<close> is the \<open>.length\<close> of the source. The built-in
  methods the repository calls are written out below for that range.
\<close>

definition isWhiteSpace :: "char \<Rightarrow> bool" where
  \<comment> \<open>WhiteSpace and LineTerminator of ECMAScript below 256: TAB, LF, VT, FF, CR, SP, NBSP;
      what \<open>trim()\<close> strips and what \<open>\\s\<close> matches.\<close>
  "isWhiteSpace c \<longleftrightarrow>
     c = CHR 0x09 \<or> c = CHR 0x0A \<or> c = CHR 0x0B \<or> c = CHR 0x0C \<or> c = CHR 0x0D
     \<or> c = CHR 0x20 \<or> c = CHR 0xA0"

definition isDigit :: "char \<Rightarrow> bool" where
  \<comment> \<open>\<open>\\d\<close>: the ASCII digits only.\<close>
  "isDigit c \<longleftrightarrow> (48::nat) \<le> of_char c \<and> of_char c \<le> (57::nat)"

definition lowerChar :: "char \<Rightarrow> char" where
  \<comment> \<open>\<open>toLowerCase\<close> on one code unit below 256: A-Z and the upper-case Latin-1 letters
      (0xC0-0xDE without the multiplication sign 0xD7) move up by 32, which for them is
      setting the bit of weight 32.\<close>
  "lowerChar c =
     (let n = (of_char c :: nat)
      in if (65 \<le> n \<and> n \<le> 90) \<or> (192 \<le> n \<and> n \<le> 222 \<and> n \<noteq> 215)
         then (case c of Char b0 b1 b2 b3 b4 b5 b6 b7 \<Rightarrow> Char b0 b1 b2 b3 b4 True b6 b7)
         else c)"

definition toLowerCase :: "string \<Rightarrow> string" where
  "toLowerCase s = map lowerChar s"

definition trim :: "string \<Rightarrow> string" where
  "trim s = rev (dropWhile isWhiteSpace (rev (dropWhile isWhiteSpace s)))"

definition startsWith :: "string \<Rightarrow> string \<Rightarrow> bool" where
  "startsWith s p \<longleftrightarrow> take (length p) s = p"

definition slice :: "string \<Rightarrow> nat \<Rightarrow> string" where
  \<comment> \<open>\<open>s.slice(n)\<close> for a non-negative \<open>n\<close>: empty when \<open>n\<close> is past the end.\<close>
  "slice s n = drop n s"

fun includes_str :: "string \<Rightarrow> string \<Rightarrow> bool" where
  "includes_str [] sub = (sub = [])"
| "includes_str (c # cs) sub = (startsWith (c # cs) sub \<or> includes_str cs sub)"

fun split_nl :: "string \<Rightarrow> string list" where
  \<comment> \<open>\<open>s.split("\\n")\<close>: never empty, \<open>"".split("\\n")\<close> is \<open>[""]\<close>.\<close>
  "split_nl [] = [[]]"
| "split_nl (c # cs) =
     (if c = CHR 0x0A then [] # split_nl cs
      else (case split_nl cs of [] \<Rightarrow> [[c]] | l # ls \<Rightarrow> (c # l) # ls))"

fun join_nl :: "string list \<Rightarrow> string" where
  \<comment> \<open>\<open>lines.join("\\n")\<close>\<close>
  "join_nl [] = []"
| "join_nl [l] = l"
| "join_nl (l # ls) = l @ CHR 0x0A # join_nl ls"

section \<open>App Store utilities (src/utils/appstore.ts)\<close>

fun matchIdDigits :: "string \<Rightarrow> string option" where
  \<comment> \<open>\<open>url.match(/\\/id(\\d+)/)\<close>: the leftmost \<open>/id\<close> that a digit follows; the group is
      the longest run of digits there.\<close>
  "matchIdDigits [] = None"
| "matchIdDigits (c # cs) =
     (if startsWith (c # cs) ''/id'' \<and> takeWhile isDigit (drop 3 (c # cs)) \<noteq> []
      then Some (takeWhile isDigit (drop 3 (c # cs)))
      else matchIdDigits cs)"

definition isNumericId :: "string \<Rightarrow> bool" where
  \<comment> \<open>\<open>/^\\d{9,10}$/\<close> (no \<open>m\<close> flag: the whole string is 9 or 10 digits).\<close>
  "isNumericId s \<longleftrightarrow> (length s = 9 \<or> length s = 10) \<and> list_all isDigit s"

definition extractAppStoreId :: "string \<Rightarrow> string option" where
  "extractAppStoreId url =
     (case matchIdDigits url of
        Some d \<Rightarrow> Some d
      | None \<Rightarrow> if isNumericId url then Some url else None)"

definition isAppStoreUrl :: "string \<Rightarrow> bool" where
  "isAppStoreUrl url \<longleftrightarrow>
     includes_str url ''apps.apple.com'' \<or> includes_str url ''itunes.apple.com'' \<or> isNumericId url"

text \<open>
  The iTunes lookup is an external HTTP service. What it answers to a request is a
  parameter of the model: the call to \<open>fetch\<close> throws, the response is not \<open>ok\<close>,
  reading the body as JSON throws, or the body is a \<open>resultCount\<close> and a list of results.
  The fields of a result are copied one by one into the \<open>AppStoreMetadata\<close> returned and are
  never inspected, so a result is a value of a type parameter.
\<close>

datatype 'app lookup_reply =
    FetchThrows
  | ResponseNotOk
  | JsonThrows
  | LookupData nat "'app list"

definition lookupUrl :: "string \<Rightarrow> string" where
  "lookupUrl appId = ''https://itunes.apple.com/lookup?id='' @ appId @ ''&country=us''"

definition fetchAppStoreMetadata ::
  "(string \<Rightarrow> 'app lookup_reply) \<Rightarrow> string \<Rightarrow> 'app option \<times> string list" where
  \<comment> \<open>The second component lists the URLs handed to \<open>fetch\<close>.\<close>
  "fetchAppStoreMetadata net url =
     (case extractAppStoreId url of
        None \<Rightarrow> (None, [])
      | Some appId \<Rightarrow>
          if appId = [] then (None, [])
          else (case net (lookupUrl appId) of
                  FetchThrows \<Rightarrow> None
                | ResponseNotOk \<Rightarrow> None
                | JsonThrows \<Rightarrow> None
                | LookupData resultCount results \<Rightarrow>
                    (if resultCount = 0 then None
                     else case results of [] \<Rightarrow> None | app # _ \<Rightarrow> Some app),
                [lookupUrl appId]))"

section \<open>Export utilities (src/utils/export.ts)\<close>

record GeneratedMetadata =
  title :: "string option"
  subtitle :: "string option"
  description :: "string option"
  keywordList :: "string list option"  \<comment> \<open>the field \<open>keywords\<close>\<close>
  releaseNotes :: "string option"
  promoText :: "string option"
  iconPath :: "string option"
  featureGraphicPath :: "string option"

text \<open>
  JavaScript values as far as \<open>buildStoreConfig\<close> builds them. An object is the list of
  its own properties in insertion order; an optional field that is not set reads as
  \<open>undefined\<close>, and the object literal of \<open>buildStoreConfig\<close> stores that value under
  the key.
\<close>

datatype js =
    JUndefined
  | JNull
  | JNum int
  | JStr string
  | JArr "js list"
  | JObj "(string \<times> js) list"

datatype json =
    Null
  | Num int
  | Str string
  | Arr "json list"
  | Obj "(string \<times> json) list"

definition optStr :: "string option \<Rightarrow> js" where
  "optStr v = (case v of None \<Rightarrow> JUndefined | Some s \<Rightarrow> JStr s)"

definition optStrs :: "string list option \<Rightarrow> js" where
  "optStrs v = (case v of None \<Rightarrow> JUndefined | Some ks \<Rightarrow> JArr (map JStr ks))"

definition buildStoreConfig :: "GeneratedMetadata \<Rightarrow> js" where
  "buildStoreConfig metadata =
     JObj [(''configVersion'', JNum 0),
           (''apple'', JObj [(''info'', JObj [(''en-US'', JObj
              [(''title'', optStr (title metadata)),
               (''subtitle'', optStr (subtitle metadata)),
               (''description'', optStr (description metadata)),
               (''keywords'', optStrs (keywordList metadata)),
               (''releaseNotes'', optStr (releaseNotes metadata)),
               (''promoText'', optStr (promoText metadata))])])])]"

fun stringify :: "js \<Rightarrow> json option"
  and stringifyElements :: "js list \<Rightarrow> json list"
  and stringifyProperties :: "(string \<times> js) list \<Rightarrow> (string \<times> json) list" where
  \<comment> \<open>\<open>JSON.stringify\<close>, up to the rendering of the document as text: \<open>undefined\<close> alone
      gives no document, an \<open>undefined\<close> array element becomes \<open>null\<close>, and a property
      whose value is \<open>undefined\<close> is left out.\<close>
  "stringify JUndefined = None"
| "stringify JNull = Some Null"
| "stringify (JNum n) = Some (Num n)"
| "stringify (JStr s) = Some (Str s)"
| "stringify (JArr xs) = Some (Arr (stringifyElements xs))"
| "stringify (JObj ps) = Some (Obj (stringifyProperties ps))"
| "stringifyElements [] = []"
| "stringifyElements (x # xs) =
     (case stringify x of None \<Rightarrow> Null | Some j \<Rightarrow> j) # stringifyElements xs"
| "stringifyProperties [] = []"
| "stringifyProperties (p # ps) =
     (case stringify (snd p) of
        None \<Rightarrow> stringifyProperties ps
      | Some j \<Rightarrow> (fst p, j) # stringifyProperties ps)"

definition exportedDocument :: "GeneratedMetadata \<Rightarrow> json option" where
  \<comment> \<open>What \<open>exportStoreConfig\<close> writes to \<open>store.config.json\<close>:
      \<open>JSON.stringify(buildStoreConfig(metadata), null, 2)\<close>.\<close>
  "exportedDocument metadata = stringify (buildStoreConfig metadata)"

definition member :: "json \<Rightarrow> string \<Rightarrow> json option" where
  \<comment> \<open>The value under a key of a JSON object; \<open>None\<close> when the key is absent.\<close>
  "member j k = (case j of Obj ps \<Rightarrow> map_of ps k | _ \<Rightarrow> None)"

definition enUS :: "json \<Rightarrow> json option" where
  \<comment> \<open>The object at \<open>apple.info["en-US"]\<close> of a document.\<close>
  "enUS doc =
     (case member doc ''apple'' of
        None \<Rightarrow> None
      | Some a \<Rightarrow> (case member a ''info'' of
                    None \<Rightarrow> None
                  | Some i \<Rightarrow> member i ''en-US''))"

definition exportedConfigVersion :: "GeneratedMetadata \<Rightarrow> json option" where
  \<comment> \<open>the value under \<open>configVersion\<close> in the exported document\<close>
  "exportedConfigVersion m =
     (case exportedDocument m of None \<Rightarrow> None | Some doc \<Rightarrow> member doc ''configVersion'')"

definition exportedInfo :: "GeneratedMetadata \<Rightarrow> json option" where
  \<comment> \<open>the object at \<open>apple.info["en-US"]\<close> in the exported document\<close>
  "exportedInfo m = (case exportedDocument m of None \<Rightarrow> None | Some doc \<Rightarrow> enUS doc)"

definition exportedField :: "GeneratedMetadata \<Rightarrow> string \<Rightarrow> json option" where
  \<comment> \<open>the value under a key of that object; \<open>None\<close> when the key is absent\<close>
  "exportedField m k = (case exportedInfo m of None \<Rightarrow> None | Some e \<Rightarrow> member e k)"

definition isCharacterCountLine :: "string \<Rightarrow> bool" where
  \<comment> \<open>\<open>line.match(/^\\s*\\(Character count:/i)\<close>: the pattern is ASCII, so the
      case-insensitive comparison is that of the lowered line with the lowered pattern.\<close>
  "isCharacterCountLine line \<longleftrightarrow>
     startsWith (toLowerCase (dropWhile isWhiteSpace line)) ''(character count:''"

fun bodyLoop :: "string list \<Rightarrow> bool \<Rightarrow> string list \<Rightarrow> string list" where
  \<comment> \<open>The \<open>for\<close> loop of \<open>extractDescription\<close> over the remaining lines, with the
      variables \<open>inBody\<close> and \<open>bodyLines\<close>.\<close>
  "bodyLoop [] inBody bodyLines = bodyLines"
| "bodyLoop (line # rest) inBody bodyLines =
     (if startsWith line ''#'' then bodyLoop rest True bodyLines
      else if isCharacterCountLine line then bodyLoop rest inBody bodyLines
      else if inBody then bodyLoop rest inBody (bodyLines @ [line])
      else bodyLoop rest inBody bodyLines)"

definition extractDescription :: "string \<Rightarrow> string option" where
  "extractDescription content =
     (let body = trim (join_nl (bodyLoop (split_nl content) False []))
      in if length body > 10 then Some body else None)"

definition keptLine :: "string \<Rightarrow> bool" where
  \<comment> \<open>Neither a heading line nor a character-count line.\<close>
  "keptLine line \<longleftrightarrow> \<not> startsWith line ''#'' \<and> \<not> isCharacterCountLine line"

definition linesAfterFirstHeading :: "string list \<Rightarrow> string list" where
  "linesAfterFirstHeading ls = dropWhile (\<lambda>l. \<not> startsWith l ''#'') ls"

section \<open>Command parsing (ui/prompts.ts)\<close>

datatype ContentType =
  Title | Subtitle | Description | Keywords | ReleaseNotes | PromoText | Full

datatype Command =
    Content ContentType
  | Model
  | Copy
  | Last
  | Clear
  | Help
  | Quit
  | Export
  | Score string
  | Url
  | Icon "string option"
  | Feature "string option"
  | Chat string

definition COMMAND_MAP :: "(string \<times> Command) list" where
  "COMMAND_MAP =
     [(''/title'', Content Title),
      (''/subtitle'', Content Subtitle),
      (''/sub'', Content Subtitle),
      (''/description'', Content Description),
      (''/desc'', Content Description),
      (''/keywords'', Content Keywords),
      (''/kw'', Content Keywords),
      (''/release'', Content ReleaseNotes),
      (''/whatsnew'', Content ReleaseNotes),
      (''/promo'', Content PromoText),
      (''/tagline'', Content PromoText),
      (''/full'', Content Full),
      (''/all'', Content Full),
      (''/model'', Model),
      (''/copy'', Copy),
      (''/last'', Last),
      (''/back'', Last),
      (''/clear'', Clear),
      (''/cls'', Clear),
      (''/help'', Help),
      (''/h'', Help),
      (''/?'', Help),
      (''/quit'', Quit),
      (''/exit'', Quit),
      (''/q'', Quit),
      (''/export'', Export),
      (''/save'', Export),
      (''/url'', Url),
      (''/import'', Url),
      (''/icon'', Icon None),
      (''/feature'', Feature None),
      (''/graphic'', Feature None)]"

text \<open>
  \<open>COMMAND_MAP\<close> is an object literal, so \<open>COMMAND_MAP[lowered]\<close> also finds what the
  object inherits from \<open>Object.prototype\<close>. The inherited members whose names are all
  lower case, and which a lowered input can therefore name, are \<open>constructor\<close> and
  \<open>__proto__\<close>; both are truthy and neither is a \<open>Command\<close>.
\<close>

datatype parsed =
    Parsed Command
  | Inherited string

definition orUndefined :: "string \<Rightarrow> string option" where
  \<comment> \<open>\<open>prompt || undefined\<close>\<close>
  "orUndefined p = (if p = [] then None else Some p)"

definition parseRest :: "string \<Rightarrow> string \<Rightarrow> parsed" where
  \<comment> \<open>\<open>parseCommand\<close> from the check for \<open>/icon\<close> on; the check for \<open>/score\<close> falls
      through to it when the keyword is empty.\<close>
  "parseRest trimmed lowered =
     (if startsWith lowered ''/icon '' then
        Parsed (Icon (orUndefined (trim (slice trimmed 6))))
      else if startsWith lowered ''/feature '' \<or> startsWith lowered ''/graphic '' then
        (let cmdLen = (if startsWith lowered ''/feature'' then 9 else 9)
         in Parsed (Feature (orUndefined (trim (slice trimmed cmdLen)))))
      else (case map_of COMMAND_MAP lowered of
              Some cmd \<Rightarrow> Parsed cmd
            | None \<Rightarrow>
                if lowered = ''constructor'' \<or> lowered = ''__proto__'' then Inherited lowered
                else if trimmed = [] then Parsed (Chat [])
                else if startsWith trimmed ''/'' then Parsed (Chat trimmed)
                else Parsed (Chat trimmed)))"

definition parseCommand :: "string \<Rightarrow> parsed" where
  "parseCommand input =
     (let trimmed = trim input;
          lowered = toLowerCase trimmed
      in if startsWith lowered ''/score '' then
           (let keyword = trim (slice trimmed 7)
            in if keyword \<noteq> [] then Parsed (Score keyword)
               else parseRest trimmed lowered)
         else parseRest trimmed lowered)"

section \<open>Ctrl+C handling (index.ts)\<close>

definition DOUBLE_CTRL_C_WINDOW_MS :: int where
  "DOUBLE_CTRL_C_WINDOW_MS = 1000"

definition shouldExitOnCtrlC :: "int \<Rightarrow> int \<Rightarrow> bool \<times> int" where
  \<comment> \<open>\<open>now\<close> is what \<open>Date.now()\<close> returns, in milliseconds; the result is the value
      returned and the new \<open>lastCtrlCTime\<close>.\<close>
  "shouldExitOnCtrlC now lastCtrlCTime =
     (if now - lastCtrlCTime < DOUBLE_CTRL_C_WINDOW_MS then (True, lastCtrlCTime)
      else (False, now))"

section \<open>Copilot service (services/copilot.ts)\<close>

subsection \<open>The backend, as the service sees it\<close>

text \<open>
  The Copilot SDK is an external collaborator. What each of its calls does is a
  parameter of the operation that makes the call: a call returns or throws
  (\<open>attempt\<close>), and an asynchronous operation of the service resolves, rejects with the
  message of an error or stays pending for ever, unless an unhandled rejection ends the
  process (\<open>outcome\<close>). The service records every call it makes in \<open>backendCalls\<close>, a
  history that the source does not keep and that no operation reads.

  A promise that is rejected while nothing is attached to it is an unhandled rejection.
  Node looks for them once the microtasks of a turn of the event loop have run. The
  repository installs no \<open>unhandledRejection\<close> handler, so Node raises the rejection as
  an uncaught exception and the process ends there. An operation that settles in the
  microtasks of that turn has settled when the process ends; one that waits for the
  backend never settles.
\<close>

datatype 'a attempt = Throws string | Returns 'a

datatype 'a outcome =
    Pending
  | Rejects string
  | Resolves 'a
  | Crashes
    \<comment> \<open>an unhandled rejection ends the process before the operation settles\<close>
  | RejectsThenCrashes string
  | ResolvesThenCrashes 'a
    \<comment> \<open>the operation settles, and an unhandled rejection ends the process at the end of
        the same turn of the event loop\<close>

definition thenCrashes :: "'a outcome \<Rightarrow> 'a outcome" where
  "thenCrashes r =
     (case r of
        Rejects m \<Rightarrow> RejectsThenCrashes m
      | Resolves x \<Rightarrow> ResolvesThenCrashes x
      | _ \<Rightarrow> r)"

record McpServer =
  serverType :: string
  url :: string
  tools :: "string list"

definition MCP_SERVERS :: "(string \<times> McpServer) list" where
  "MCP_SERVERS =
     [(''aso-keywords'',
       \<lparr>serverType = ''http'', url = ''https://aso-mcp.vercel.app/api/mcp'', tools = [''*'']\<rparr>)]"

datatype SystemPrompt = SYSTEM_PROMPT_ASO
  \<comment> \<open>the template constant of that name; its text is handed to the SDK and never inspected\<close>

record SessionConfig =
  model :: string
  streaming :: bool
  mcpServers :: "(string \<times> McpServer) list"
  systemMessage :: "string \<times> SystemPrompt"  \<comment> \<open>\<open>mode\<close> and \<open>content\<close>\<close>

datatype Prompt =
    ContentPrompt ContentType
    \<comment> \<open>\<open>getContentPrompt(contentType, this.context.appInfo)\<close>; the text is sent as it is\<close>

datatype BackendCall =
    ClientStart
  | GetAuthStatus
  | CreateSession SessionConfig
  | DestroySession
  | Send Prompt
  | ClientStop
  | ClientForceStop

datatype QuotaSnapshot = QuotaSnapshot bool int int int "string option"
  \<comment> \<open>\<open>isUnlimitedEntitlement\<close>, \<open>entitlementRequests\<close>, \<open>usedRequests\<close>,
      \<open>remainingPercentage\<close>, \<open>resetDate\<close>; the numbers are copied, never computed with\<close>

datatype QuotaInfo = QuotaInfo string int int int "string option" bool
  \<comment> \<open>\<open>model\<close>, \<open>usedRequests\<close>, \<open>totalRequests\<close>, \<open>remainingPercentage\<close>,
      \<open>resetDate\<close>, \<open>isUnlimited\<close>\<close>

datatype SessionEvent =
    MessageDelta "string option"
    \<comment> \<open>\<open>assistant.message_delta\<close> and its \<open>deltaContent\<close>, when the data has one\<close>
  | ToolExecutionStart "string option"
    \<comment> \<open>\<open>tool.execution_start\<close> and its \<open>toolName\<close>\<close>
  | ToolExecutionComplete "bool option"
    \<comment> \<open>\<open>tool.execution_complete\<close> and its \<open>success\<close>\<close>
  | AssistantUsage "(string \<times> QuotaSnapshot) list option" "string option"
    \<comment> \<open>\<open>assistant.usage\<close>: its \<open>quotaSnapshots\<close> in the order of \<open>Object.keys\<close>, and its
        \<open>model\<close>\<close>
  | SessionIdle
  | SessionError "string option"
    \<comment> \<open>\<open>session.error\<close> and its \<open>message\<close>\<close>
  | OtherEvent string
    \<comment> \<open>an event of any other type\<close>

record Reply =
  sendError :: "string option"
  eventsDuringSend :: "SessionEvent list"
  events :: "SessionEvent list"
  \<comment> \<open>What the backend does with one request, in the order of arrival: the events
      delivered to the handlers of the session while \<open>session.send\<close> is pending, in turns
      of the event loop that end before \<open>send\<close> settles; the error that \<open>send\<close> throws, if
      any; and, when \<open>send\<close> returns, \<open>events\<close>, those delivered from then on until
      \<open>streamGeneration\<close> goes on after \<open>await done\<close>.\<close>

subsection \<open>State\<close>

datatype settlement = Resolved | Rejected string

record Handler =
  \<comment> \<open>One closure given to \<open>session.on\<close> by \<open>streamGeneration\<close>, with the variables it
      captures and the promise \<open>done\<close> it settles.\<close>
  outputBuf :: string  \<comment> \<open>the variable \<open>output\<close>\<close>
  isGeneratingContent :: bool
  toolsCompleted :: nat
  contentLabel :: string
  settled :: "settlement option"
  awaited :: bool  \<comment> \<open>\<open>await done\<close> has been reached: a rejection of \<open>done\<close> is handled\<close>

record Session =
  config :: SessionConfig
  handlers :: "Handler list"
  \<comment> \<open>\<open>streamGeneration\<close> drops the unsubscribe function that \<open>session.on\<close> returns, so
      a session keeps every handler registered on it, in the order of registration.\<close>
  destroyCalled :: bool

datatype ToolActivity = AnalyzingKeywordScores | RunningTool string

datatype SpinnerText =
    NoText
  | Connecting
  | CheckingAuthentication
  | CreatingSession
  | ConnectedTo string
  | FailedToConnect
  | SwitchingTo string
  | SwitchedTo string
  | FailedToSwitch
  | SpinnerTextFor ContentType
  | SuccessTextFor ContentType
  | FailedToGenerate ContentType
  | Writing string "nat option"
  | ToolAction ToolActivity
  | ToolCompleted nat
  \<comment> \<open>The text last given to the spinner, by the template that produced it and the values
      put into the template (a model is shown by its display name, looked up by its id).\<close>

record ClientOptions =
  autoStart :: bool
  autoRestart :: bool

record CopilotService =
  client :: "ClientOptions option"
  session :: "Session option"
  spinner :: SpinnerText
  currentModel :: string
  quotaInfo :: "QuotaInfo option"
  generatedContent :: "ContentType \<rightharpoonup> string"  \<comment> \<open>\<open>context.generatedContent\<close>\<close>
  backendCalls :: "BackendCall list"

definition newCopilotService :: "string \<Rightarrow> CopilotService" where
  \<comment> \<open>the constructor\<close>
  "newCopilotService m =
     \<lparr>client = None, session = None, spinner = NoText, currentModel = m, quotaInfo = None,
      generatedContent = Map.empty, backendCalls = []\<rparr>"

subsection \<open>Helpers\<close>

fun getContentLabel :: "ContentType \<Rightarrow> string" where
  "getContentLabel Title = ''title options''"
| "getContentLabel Subtitle = ''subtitle options''"
| "getContentLabel Description = ''description''"
| "getContentLabel Keywords = ''keywords''"
| "getContentLabel ReleaseNotes = ''release notes''"
| "getContentLabel PromoText = ''promo text''"
| "getContentLabel Full = ''ASO package''"

definition getToolFriendlyName :: "string \<Rightarrow> ToolActivity" where
  "getToolFriendlyName toolName =
     (let normalizedName = map (\<lambda>c. if c = CHR ''-'' then CHR ''_'' else c) (toLowerCase toolName)
      in if includes_str normalizedName ''keyword'' then AnalyzingKeywordScores
         else RunningTool toolName)"

definition headingAt :: "string \<Rightarrow> bool" where
  \<comment> \<open>\<open>/(#{1,2}\\s+[^\\n]+)/\<close> matches at the start of the string: one or two \<open>#\<close>, then
      white space, then a character that is not a line feed. With a second \<open>#\<close> only two
      can match, since white space must follow; of the white space, all but the first
      character may be given to \<open>[^\\n]+\<close>.\<close>
  "headingAt s =
     (case s of
        [] \<Rightarrow> False
      | c # cs \<Rightarrow>
          c = CHR ''#'' \<and>
          (let rest = (case cs of [] \<Rightarrow> cs | d # ds \<Rightarrow> if d = CHR ''#'' then ds else cs);
               w = takeWhile isWhiteSpace rest;
               r = dropWhile isWhiteSpace rest
           in w \<noteq> [] \<and> (r \<noteq> [] \<or> list_ex (\<lambda>x. x \<noteq> CHR 0x0A) (tl w))))"

fun headingIndex :: "string \<Rightarrow> nat option" where
  \<comment> \<open>\<open>headingMatch.index\<close>: where the leftmost match starts\<close>
  "headingIndex [] = None"
| "headingIndex (c # cs) =
     (if headingAt (c # cs) then Some 0 else map_option Suc (headingIndex cs))"

definition cleanOutput :: "string \<Rightarrow> string" where
  "cleanOutput text =
     (case headingIndex text of
        Some i \<Rightarrow> trim (drop i text)
      | None \<Rightarrow> trim text)"

subsection \<open>Streaming\<close>

definition settle :: "settlement \<Rightarrow> Handler \<Rightarrow> Handler" where
  \<comment> \<open>\<open>resolve\<close> and \<open>reject\<close>: a promise keeps its first settlement\<close>
  "settle r h = (case settled h of None \<Rightarrow> h\<lparr>settled := Some r\<rparr> | Some _ \<Rightarrow> h)"

fun onEvent :: "SessionEvent \<Rightarrow> Handler \<Rightarrow> CopilotService \<Rightarrow> Handler \<times> CopilotService" where
  \<comment> \<open>The \<open>switch\<close> of the handler, on the variables of the closure and the fields of the
      service the closure writes.\<close>
  "onEvent (MessageDelta deltaContent) h svc =
     (case deltaContent of
        None \<Rightarrow> (h, svc)
      | Some d \<Rightarrow>
          if d = [] then (h, svc)
          else
            (let h1 = h\<lparr>outputBuf := outputBuf h @ d\<rparr>;
                 svc1 = (if \<not> isGeneratingContent h1
                         then svc\<lparr>spinner := Writing (contentLabel h1) None\<rparr> else svc);
                 h2 = h1\<lparr>isGeneratingContent := True\<rparr>;
                 lines = length (split_nl (outputBuf h2))
             in (h2, if lines > 3 then svc1\<lparr>spinner := Writing (contentLabel h2) (Some lines)\<rparr>
                     else svc1)))"
| "onEvent (ToolExecutionStart toolName) h svc =
     (case toolName of
        None \<Rightarrow> (h, svc)
      | Some n \<Rightarrow> (h, svc\<lparr>spinner := ToolAction (getToolFriendlyName n)\<rparr>))"
| "onEvent (ToolExecutionComplete success) h svc =
     (if success = Some True
      then (h\<lparr>toolsCompleted := toolsCompleted h + 1\<rparr>,
            svc\<lparr>spinner := ToolCompleted (toolsCompleted h + 1)\<rparr>)
      else (h, svc))"
| "onEvent (AssistantUsage quotaSnapshots eventModel) h svc =
     (case quotaSnapshots of
        None \<Rightarrow> (h, svc)
      | Some snapshots \<Rightarrow>
          (case snapshots of
             [] \<Rightarrow> (h, svc)
           | (firstKey, QuotaSnapshot unlimited entitlement used remaining reset) # _ \<Rightarrow>
               if firstKey = [] then (h, svc)
               else (h, svc\<lparr>quotaInfo := Some (QuotaInfo
                       (case eventModel of Some m \<Rightarrow> m | None \<Rightarrow> currentModel svc)
                       used entitlement remaining reset unlimited)\<rparr>)))"
| "onEvent SessionIdle h svc = (settle Resolved h, svc)"
| "onEvent (SessionError message) h svc =
     (case message of
        Some m \<Rightarrow> (settle (Rejected m) h, svc)
      | None \<Rightarrow> (settle (Rejected ''Session error occurred'') h, svc))"
| "onEvent (OtherEvent _) h svc = (h, svc)"

fun dispatch :: "SessionEvent \<Rightarrow> Handler list \<Rightarrow> CopilotService \<Rightarrow> Handler list \<times> CopilotService" where
  \<comment> \<open>One event given to every registered handler, in the order of registration.\<close>
  "dispatch ev [] svc = ([], svc)"
| "dispatch ev (h # hs) svc =
     (case onEvent ev h svc of
        (h', svc') \<Rightarrow> (case dispatch ev hs svc' of (hs', svc'') \<Rightarrow> (h' # hs', svc'')))"

fun deliver :: "SessionEvent list \<Rightarrow> Handler list \<Rightarrow> CopilotService \<Rightarrow> Handler list \<times> CopilotService" where
  "deliver [] hs svc = (hs, svc)"
| "deliver (ev # evs) hs svc =
     (case dispatch ev hs svc of (hs', svc') \<Rightarrow> deliver evs hs' svc')"

definition undefinedSessionMessage :: string where
  \<comment> \<open>The message of the \<open>TypeError\<close> that V8 throws for \<open>this.session.send\<close> when
      \<open>this.session\<close> is \<open>undefined\<close>.\<close>
  "undefinedSessionMessage =
     ''Cannot read properties of undefined (reading '' @ [CHR 0x27] @ ''send'' @ [CHR 0x27] @ '')''"

definition newHandler :: "ContentType \<Rightarrow> Handler" where
  "newHandler contentType =
     \<lparr>outputBuf = [], isGeneratingContent = False, toolsCompleted = 0,
      contentLabel = getContentLabel contentType, settled = None, awaited = False\<rparr>"

definition awaitDone :: "Handler \<Rightarrow> string outcome" where
  \<comment> \<open>\<open>await done; return output\<close>\<close>
  "awaitDone h =
     (case settled h of
        None \<Rightarrow> Pending
      | Some Resolved \<Rightarrow> Resolves (outputBuf h)
      | Some (Rejected m) \<Rightarrow> Rejects m)"

definition orphaned :: "Handler \<Rightarrow> bool" where
  \<comment> \<open>The promise \<open>done\<close> of the handler is rejected and \<open>await done\<close> has not been reached:
      an unhandled rejection.\<close>
  "orphaned h \<longleftrightarrow> (case settled h of Some (Rejected _) \<Rightarrow> \<not> awaited h | _ \<Rightarrow> False)"

definition streamGeneration ::
  "CopilotService \<Rightarrow> Prompt \<Rightarrow> ContentType \<Rightarrow> Reply \<Rightarrow> string outcome \<times> CopilotService" where
  \<comment> \<open>The handler is registered, then \<open>await this.session.send({ prompt })\<close>, and only then
      \<open>await done\<close>. Until \<open>send\<close> has returned nothing is attached to \<open>done\<close>: an error
      event that arrives before is an unhandled rejection, and \<open>send\<close> is still pending
      when the process ends. The \<open>done\<close> of a request whose \<open>send\<close> threw is never
      awaited, while its handler stays registered: when an error event of a later request
      rejects it, that request, if its \<open>send\<close> has returned, rejects in the same turn, and
      then the process ends. Without a session \<open>this.session.on\<close> throws in the executor of
      \<open>done\<close>, which rejects \<open>done\<close>, and \<open>this.session.send\<close> throws before anything
      awaits \<open>done\<close>.\<close>
  "streamGeneration svc prompt contentType reply =
     (case session svc of
        None \<Rightarrow> (RejectsThenCrashes undefinedSessionMessage, svc)
      | Some sess \<Rightarrow>
          (let registered = handlers sess @ [newHandler contentType];
               svc1 = svc\<lparr>backendCalls := backendCalls svc @ [Send prompt]\<rparr>
           in case deliver (eventsDuringSend reply) registered svc1 of
                (hs1, svc2) \<Rightarrow>
                  if list_ex orphaned hs1 then
                    (Crashes, svc2\<lparr>session := Some (sess\<lparr>handlers := hs1\<rparr>)\<rparr>)
                  else
                    (case sendError reply of
                       Some e \<Rightarrow> (Rejects e, svc2\<lparr>session := Some (sess\<lparr>handlers := hs1\<rparr>)\<rparr>)
                     | None \<Rightarrow>
                         (case deliver (events reply)
                                 (butlast hs1 @ [(last hs1)\<lparr>awaited := True\<rparr>]) svc2 of
                            (hs2, svc3) \<Rightarrow>
                              (if list_ex orphaned hs2 then thenCrashes (awaitDone (last hs2))
                               else awaitDone (last hs2),
                               svc3\<lparr>session := Some (sess\<lparr>handlers := hs2\<rparr>)\<rparr>)))))"

subsection \<open>Operations\<close>

record GenerationResult =
  content :: string
  success :: bool
  error :: "string option"

definition requestGeneration ::
  "CopilotService \<Rightarrow> ContentType \<Rightarrow> Reply \<Rightarrow> GenerationResult outcome \<times> CopilotService" where
  \<comment> \<open>\<open>generate\<close> from \<open>const prompt = ...\<close> on: the request and its \<open>try\<close>/\<open>catch\<close>.\<close>
  "requestGeneration svc contentType reply =
     (let svc1 = svc\<lparr>spinner := SpinnerTextFor contentType\<rparr>
      in case streamGeneration svc1 (ContentPrompt contentType) contentType reply of
           (Pending, svc2) \<Rightarrow> (Pending, svc2)
         | (Crashes, svc2) \<Rightarrow> (Crashes, svc2)
         | (Resolves text, svc2) \<Rightarrow>
             (Resolves \<lparr>content = cleanOutput text, success = True, error = None\<rparr>,
              svc2\<lparr>generatedContent := (generatedContent svc2)(contentType \<mapsto> cleanOutput text),
                   spinner := SuccessTextFor contentType\<rparr>)
         | (Rejects errorMessage, svc2) \<Rightarrow>
             (Resolves \<lparr>content = [], success = False, error = Some errorMessage\<rparr>,
              svc2\<lparr>spinner := FailedToGenerate contentType\<rparr>)
         | (ResolvesThenCrashes text, svc2) \<Rightarrow>
             (ResolvesThenCrashes \<lparr>content = cleanOutput text, success = True, error = None\<rparr>,
              svc2\<lparr>generatedContent := (generatedContent svc2)(contentType \<mapsto> cleanOutput text),
                   spinner := SuccessTextFor contentType\<rparr>)
         | (RejectsThenCrashes errorMessage, svc2) \<Rightarrow>
             (ResolvesThenCrashes \<lparr>content = [], success = False, error = Some errorMessage\<rparr>,
              svc2\<lparr>spinner := FailedToGenerate contentType\<rparr>))"

definition generate ::
  "CopilotService \<Rightarrow> ContentType \<Rightarrow> bool \<Rightarrow> Reply \<Rightarrow> GenerationResult outcome \<times> CopilotService" where
  \<comment> \<open>\<open>generate(contentType, {regenerate})\<close>; \<open>reply\<close> is what the backend does if the
      request is sent. \<open>if (cached && !regenerate)\<close> takes a cached text that is truthy,
      that is, not empty.\<close>
  "generate svc contentType regenerate reply =
     (let svc1 = (if regenerate
                  then svc\<lparr>generatedContent := (generatedContent svc)(contentType := None)\<rparr>
                  else svc)
      in case generatedContent svc1 contentType of
           None \<Rightarrow> requestGeneration svc1 contentType reply
         | Some cached \<Rightarrow>
             if cached \<noteq> [] \<and> \<not> regenerate
             then (Resolves \<lparr>content = cached, success = True, error = None\<rparr>, svc1)
             else requestGeneration svc1 contentType reply)"

definition destroySession :: "unit attempt \<Rightarrow> CopilotService \<Rightarrow> CopilotService" where
  \<comment> \<open>\<open>if (this.session) { try { await this.session.destroy(); } catch { } }\<close>: whatever
      \<open>destroy\<close> does, the service goes on, and \<open>this.session\<close> keeps the handle.\<close>
  "destroySession destroyed svc =
     (case session svc of
        None \<Rightarrow> svc
      | Some sess \<Rightarrow>
          svc\<lparr>session := Some (sess\<lparr>destroyCalled := True\<rparr>),
              backendCalls := backendCalls svc @ [DestroySession]\<rparr>)"

definition switchModel ::
  "CopilotService \<Rightarrow> string \<Rightarrow> unit attempt \<Rightarrow> unit attempt \<Rightarrow> unit outcome \<times> CopilotService" where
  \<comment> \<open>\<open>switchModel(newModel)\<close>, given what \<open>session.destroy\<close> and
      \<open>client.createSession\<close> do if they are called.\<close>
  "switchModel svc newModel destroyed created =
     (if newModel = currentModel svc then (Resolves (), svc)
      else
        (let svc1 = svc\<lparr>spinner := SwitchingTo newModel\<rparr>;
             svc2 = destroySession destroyed svc1;
             svc3 = svc2\<lparr>currentModel := newModel\<rparr>
         in case client svc3 of
              None \<Rightarrow>
                (Rejects ''Service not initialized. Call initialize() first.'',
                 svc3\<lparr>spinner := FailedToSwitch\<rparr>)
            | Some _ \<Rightarrow>
                (let options = \<lparr>model = currentModel svc3, streaming = True,
                                mcpServers = MCP_SERVERS,
                                systemMessage = (''append'', SYSTEM_PROMPT_ASO)\<rparr>;
                     svc4 = svc3\<lparr>backendCalls := backendCalls svc3 @ [CreateSession options]\<rparr>
                 in case created of
                      Throws e \<Rightarrow> (Rejects e, svc4\<lparr>spinner := FailedToSwitch\<rparr>)
                    | Returns _ \<Rightarrow>
                        (Resolves (),
                         svc4\<lparr>session := Some \<lparr>config = options, handlers = [],
                                               destroyCalled = False\<rparr>,
                              spinner := SwitchedTo (currentModel svc4)\<rparr>))))"

definition initialize ::
  "CopilotService \<Rightarrow> unit attempt \<Rightarrow> bool attempt \<Rightarrow> unit attempt \<Rightarrow> unit outcome \<times> CopilotService" where
  \<comment> \<open>\<open>initialize()\<close>, given what \<open>client.start\<close>, \<open>client.getAuthStatus\<close> (its
      \<open>isAuthenticated\<close>) and \<open>client.createSession\<close> do.\<close>
  "initialize svc started auth created =
     (let svc1 = svc\<lparr>spinner := Connecting,
                     client := Some \<lparr>autoStart = True, autoRestart = True\<rparr>,
                     backendCalls := backendCalls svc @ [ClientStart]\<rparr>
      in case started of
           Throws e \<Rightarrow> (Rejects e, svc1\<lparr>spinner := FailedToConnect\<rparr>)
         | Returns _ \<Rightarrow>
             (let svc2 = svc1\<lparr>spinner := CheckingAuthentication,
                             backendCalls := backendCalls svc1 @ [GetAuthStatus]\<rparr>
              in case auth of
                   Throws e \<Rightarrow> (Rejects e, svc2\<lparr>spinner := FailedToConnect\<rparr>)
                 | Returns isAuthenticated \<Rightarrow>
                     if \<not> isAuthenticated then
                       (Rejects (''Not authenticated with GitHub Copilot.'' @ [CHR 0x0A, CHR 0x0A]
                                 @ ''  Run '' @ [CHR 0x27] @ ''copilot auth'' @ [CHR 0x27]
                                 @ '' in your terminal to log in.''),
                        svc2\<lparr>spinner := FailedToConnect\<rparr>)
                     else
                       (let options = \<lparr>model = currentModel svc2, streaming = True,
                                       mcpServers = MCP_SERVERS,
                                       systemMessage = (''append'', SYSTEM_PROMPT_ASO)\<rparr>;
                            svc3 = svc2\<lparr>spinner := CreatingSession,
                                        backendCalls := backendCalls svc2 @ [CreateSession options]\<rparr>
                        in case created of
                             Throws e \<Rightarrow> (Rejects e, svc3\<lparr>spinner := FailedToConnect\<rparr>)
                           | Returns _ \<Rightarrow>
                               (Resolves (),
                                svc3\<lparr>session := Some \<lparr>config = options, handlers = [],
                                                      destroyCalled = False\<rparr>,
                                     spinner := ConnectedTo (currentModel svc3)\<rparr>))))"

definition cleanup ::
  "CopilotService \<Rightarrow> unit attempt \<Rightarrow> unit attempt \<Rightarrow> unit attempt \<Rightarrow> CopilotService" where
  \<comment> \<open>\<open>cleanup()\<close>, given what \<open>session.destroy\<close>, \<open>client.stop\<close> and
      \<open>client.forceStop\<close> do; it always resolves.\<close>
  "cleanup svc destroyed stopped forceStopped =
     (let svc1 = destroySession destroyed svc
      in case client svc1 of
           None \<Rightarrow> svc1
         | Some _ \<Rightarrow>
             (case stopped of
                Returns _ \<Rightarrow> svc1\<lparr>backendCalls := backendCalls svc1 @ [ClientStop]\<rparr>
              | Throws _ \<Rightarrow>
                  svc1\<lparr>backendCalls := backendCalls svc1 @ [ClientStop, ClientForceStop]\<rparr>))"

section \<open>The process and its interrupts (index.ts)\<close>

datatype ConsoleLine = BlankLine | GoodbyeLine | PressAgainLine

definition printGoodbye :: "ConsoleLine list" where
  "printGoodbye = [BlankLine, GoodbyeLine, BlankLine]"

record Process =
  lastCtrlCTime :: int
  service :: "CopilotService option"  \<comment> \<open>\<open>state.service\<close>\<close>
  console :: "ConsoleLine list"
  exitCode :: "int option"  \<comment> \<open>set by \<open>process.exit\<close>; nothing runs after it\<close>

record Teardown =
  \<comment> \<open>what the SDK does when \<open>cleanup\<close> calls it\<close>
  destroyResult :: "unit attempt"
  stopResult :: "unit attempt"
  forceStopResult :: "unit attempt"

definition startProcess :: Process where
  \<comment> \<open>the module-level state when the program starts\<close>
  "startProcess = \<lparr>lastCtrlCTime = 0, service = None, console = [], exitCode = None\<rparr>"

definition handleCtrlC :: "int \<Rightarrow> Teardown \<Rightarrow> Process \<Rightarrow> Process" where
  \<comment> \<open>\<open>handleCtrlC()\<close> when \<open>Date.now()\<close> returns \<open>now\<close>\<close>
  "handleCtrlC now td p =
     (case shouldExitOnCtrlC now (lastCtrlCTime p) of
        (True, t) \<Rightarrow>
          p\<lparr>lastCtrlCTime := t,
            console := console p @ [BlankLine] @ printGoodbye,
            service := map_option
              (\<lambda>svc. cleanup svc (destroyResult td) (stopResult td) (forceStopResult td))
              (service p),
            exitCode := Some 0\<rparr>
      | (False, t) \<Rightarrow>
          p\<lparr>lastCtrlCTime := t, console := console p @ [BlankLine, PressAgainLine]\<rparr>)"

fun interrupts :: "int list \<Rightarrow> Teardown \<Rightarrow> Process \<Rightarrow> Process" where
  \<comment> \<open>The interrupts that the interactive loop catches at a prompt (an
      \<open>ExitPromptError\<close>) and hands to \<open>handleCtrlC\<close>, by the time \<open>Date.now()\<close> returns
      at each; the loop ends with the process.\<close>
  "interrupts [] td p = p"
| "interrupts (now # later) td p =
     (if exitCode p \<noteq> None then p else interrupts later td (handleCtrlC now td p))"

section \<open>Notions used in the statements\<close>

definition deltaText :: "SessionEvent \<Rightarrow> string" where
  \<comment> \<open>The text that a message-delta event carries; every other event carries none.\<close>
  "deltaText ev = (case ev of MessageDelta (Some d) \<Rightarrow> d | _ \<Rightarrow> [])"

definition terminal :: "SessionEvent \<Rightarrow> settlement option" where
  \<comment> \<open>How an idle or an error event settles a request; no other event settles one.\<close>
  "terminal ev =
     (case ev of
        SessionIdle \<Rightarrow> Some Resolved
      | SessionError (Some m) \<Rightarrow> Some (Rejected m)
      | SessionError None \<Rightarrow> Some (Rejected ''Session error occurred'')
      | _ \<Rightarrow> None)"

fun firstSettlement :: "SessionEvent list \<Rightarrow> settlement option" where
  \<comment> \<open>The settlement by the first idle or error event of a sequence.\<close>
  "firstSettlement [] = None"
| "firstSettlement (ev # evs) =
     (case terminal ev of Some s \<Rightarrow> Some s | None \<Rightarrow> firstSettlement evs)"

definition handlerAfter :: "SessionEvent \<Rightarrow> Handler \<Rightarrow> Handler" where
  \<comment> \<open>The variables of a handler after an event. They do not depend on the service the
      handler writes to, so they are read off at a new one.\<close>
  "handlerAfter ev h = fst (onEvent ev h (newCopilotService []))"

definition rejecting :: "SessionEvent list \<Rightarrow> bool" where
  \<comment> \<open>The first idle or error event of the sequence is an error event.\<close>
  "rejecting evs \<longleftrightarrow> (case firstSettlement evs of Some (Rejected _) \<Rightarrow> True | _ \<Rightarrow> False)"

definition unawaited :: "Handler \<Rightarrow> bool" where
  \<comment> \<open>The promise of the handler is neither settled nor awaited: what a request leaves
      behind when its \<open>send\<close> throws.\<close>
  "unawaited h \<longleftrightarrow> settled h = None \<and> \<not> awaited h"

definition orphanedPromise :: "CopilotService \<Rightarrow> bool" where
  \<comment> \<open>The promise of an earlier request on the session is rejected and nothing awaits it.\<close>
  "orphanedPromise svc \<longleftrightarrow>
     (case session svc of None \<Rightarrow> False | Some sess \<Rightarrow> list_ex orphaned (handlers sess))"

definition unawaitedPromise :: "CopilotService \<Rightarrow> bool" where
  \<comment> \<open>The promise of an earlier request on the session is neither settled nor awaited.\<close>
  "unawaitedPromise svc \<longleftrightarrow>
     (case session svc of None \<Rightarrow> False | Some sess \<Rightarrow> list_ex unawaited (handlers sess))"

definition unhandledDuringSend :: "CopilotService \<Rightarrow> Reply \<Rightarrow> bool" where
  \<comment> \<open>There is an unhandled rejection before \<open>send\<close> settles: an earlier request left
      one, or the first idle or error event that arrives while \<open>send\<close> is pending is an
      error event.\<close>
  "unhandledDuringSend svc reply \<longleftrightarrow>
     orphanedPromise svc \<or> rejecting (eventsDuringSend reply)"

definition unhandledAfterSend :: "CopilotService \<Rightarrow> Reply \<Rightarrow> bool" where
  \<comment> \<open>\<open>send\<close> returns, an earlier request left a promise neither settled nor awaited, and
      the first idle or error event of this request is an error event.\<close>
  "unhandledAfterSend svc reply \<longleftrightarrow>
     sendError reply = None \<and> unawaitedPromise svc \<and>
     rejecting (eventsDuringSend reply @ events reply)"

definition everyPromiseAwaited :: "CopilotService \<Rightarrow> bool" where
  \<comment> \<open>There is a session, and \<open>await done\<close> was reached in every request made on it.\<close>
  "everyPromiseAwaited svc \<longleftrightarrow>
     (case session svc of None \<Rightarrow> False | Some sess \<Rightarrow> list_all awaited (handlers sess))"

definition connectedService :: "string \<Rightarrow> CopilotService" where
  \<comment> \<open>A service constructed for a model and initialized without failure.\<close>
  "connectedService m =
     snd (initialize (newCopilotService m) (Returns ()) (Returns True) (Returns ()))"

definition requestsSent :: "CopilotService \<Rightarrow> Prompt list" where
  \<comment> \<open>The prompts sent to the backend so far.\<close>
  "requestsSent svc = concat (map (\<lambda>c. case c of Send p \<Rightarrow> [p] | _ \<Rightarrow> []) (backendCalls svc))"

definition hasCached :: "CopilotService \<Rightarrow> ContentType \<Rightarrow> bool" where
  \<comment> \<open>A text is cached for the content type and is not empty.\<close>
  "hasCached svc contentType \<longleftrightarrow>
     (case generatedContent svc contentType of None \<Rightarrow> False | Some t \<Rightarrow> t \<noteq> [])"

section \<open>The specification's wording, for comparison\<close>

definition describedBody :: "string \<Rightarrow> string option" where
  \<comment> \<open>\<open>extractDescription\<close> as the specification words it: drop every heading line and
      every character-count line, put all the remaining lines together, trim, and return
      nothing when 10 characters or fewer remain.\<close>
  "describedBody txt =
     (let body = trim (join_nl (filter keptLine (split_nl txt)))
      in if length body \<le> 10 then None else Some body)"

definition populatedFields :: "GeneratedMetadata \<Rightarrow> (string \<times> json) list" where
  \<comment> \<open>The object at \<open>apple.info["en-US"]\<close> as the specification words it: only
      populated fields are included, absent fields are omitted, not nulled.\<close>
  "populatedFields m =
     (case title m of None \<Rightarrow> [] | Some s \<Rightarrow> [(''title'', Str s)])
     @ (case subtitle m of None \<Rightarrow> [] | Some s \<Rightarrow> [(''subtitle'', Str s)])
     @ (case description m of None \<Rightarrow> [] | Some s \<Rightarrow> [(''description'', Str s)])
     @ (case keywordList m of None \<Rightarrow> [] | Some ks \<Rightarrow> [(''keywords'', Arr (map Str ks))])
     @ (case releaseNotes m of None \<Rightarrow> [] | Some s \<Rightarrow> [(''releaseNotes'', Str s)])
     @ (case promoText m of None \<Rightarrow> [] | Some s \<Rightarrow> [(''promoText'', Str s)])"

definition streamOutcome :: "Reply \<Rightarrow> string outcome" where
  \<comment> \<open>One streamed request as the specification words it: the text of the message-delta
      events in the order of their arrival is the result when an idle event ends the
      request, an error event ends it with the message it carries, and nothing ends it
      otherwise. An error thrown by \<open>send\<close> comes first.\<close>
  "streamOutcome reply =
     (case sendError reply of
        Some e \<Rightarrow> Rejects e
      | None \<Rightarrow>
          (case firstSettlement (eventsDuringSend reply @ events reply) of
             None \<Rightarrow> Pending
           | Some Resolved \<Rightarrow>
               Resolves (concat (map deltaText (eventsDuringSend reply @ events reply)))
           | Some (Rejected m) \<Rightarrow> Rejects m))"

section \<open>Properties of the App Store utilities\<close>

lemma appstore_example_accepted: "isAppStoreUrl ''https://apps.apple.com/us/app/foo''"
  by (simp add: isAppStoreUrl_def startsWith_def)

lemma appstore_example_no_id: "extractAppStoreId ''https://apps.apple.com/us/app/foo'' = None"
  by (simp add: extractAppStoreId_def startsWith_def isNumericId_def)

text \<open>
  C10. A string that \<open>isAppStoreUrl\<close> accepts need not carry an id that
  \<open>extractAppStoreId\<close> can extract: there is such a string, and for every such string
  \<open>fetchAppStoreMetadata\<close> returns \<open>null\<close> and hands no URL to \<open>fetch\<close>, whatever the
  lookup service would have answered.
\<close>

theorem accepted_url_without_id:
  "(\<exists>url. isAppStoreUrl url \<and> extractAppStoreId url = None) \<and>
   (\<forall>net url. isAppStoreUrl url \<and> extractAppStoreId url = None
        \<longrightarrow> fetchAppStoreMetadata net url = (None, []))"
proof
  show "\<exists>url. isAppStoreUrl url \<and> extractAppStoreId url = None"
    using appstore_example_accepted appstore_example_no_id by blast
next
  show "\<forall>net url. isAppStoreUrl url \<and> extractAppStoreId url = None
        \<longrightarrow> fetchAppStoreMetadata net url = (None, [])"
    by (simp add: fetchAppStoreMetadata_def)
qed

theorem accepted_url_without_id_witness:
  "isAppStoreUrl ''https://apps.apple.com/us/app/foo'' \<and>
   extractAppStoreId ''https://apps.apple.com/us/app/foo'' = None \<and>
   fetchAppStoreMetadata (\<lambda>_. LookupData 1 [()]) ''https://apps.apple.com/us/app/foo''
     = (None, [])"
  using accepted_url_without_id appstore_example_accepted appstore_example_no_id by blast

section \<open>Properties of the export utilities\<close>

lemma bodyLoop_in_body: "bodyLoop ls True acc = acc @ filter keptLine ls"
  by (induction ls arbitrary: acc) (simp_all add: keptLine_def)

lemma bodyLoop_before_body:
  "bodyLoop ls False acc = acc @ filter keptLine (linesAfterFirstHeading ls)"
  by (induction ls arbitrary: acc)
     (simp_all add: linesAfterFirstHeading_def bodyLoop_in_body keptLine_def)

lemmas line_tests =
  keptLine_def startsWith_def isCharacterCountLine_def trim_def isWhiteSpace_def
  toLowerCase_def lowerChar_def

text \<open>
  C6, as the code has it. \<open>extractDescription\<close> drops every line before the first
  heading line, every heading line and every character-count line, joins the lines that
  remain with line feeds and trims; it returns nothing when 10 characters or fewer remain
  (so always when the text has no heading line), and the trimmed body otherwise.
\<close>

theorem extractDescription_after_first_heading:
  "extractDescription txt =
     (let body = trim (join_nl (filter keptLine (linesAfterFirstHeading (split_nl txt))))
      in if length body > 10 then Some body else None)"
  by (simp add: extractDescription_def bodyLoop_before_body)

text \<open>
  The two examples of the claim: a heading with a body of 5 characters, and a heading with
  a body of 48 characters followed by a character-count line.
\<close>

theorem extractDescription_after_first_heading_witness:
  "extractDescription ''# Sleep Tracker\<newline>Sleep'' = None \<and>
   extractDescription
     ''## Description\<newline>Track every night of sleep with gentle insights.\<newline>(Character count: 48)''
     = Some ''Track every night of sleep with gentle insights.''"
  using extractDescription_after_first_heading [of "''# Sleep Tracker\<newline>Sleep''"]
    extractDescription_after_first_heading
      [of "''## Description\<newline>Track every night of sleep with gentle insights.\<newline>(Character count: 48)''"]
  by (simp add: linesAfterFirstHeading_def line_tests)

text \<open>
  C6 as stated fails on a text without a heading line: its 48 characters are all that
  remains after dropping heading and character-count lines, and the code returns nothing.
  Lines before the first heading are dropped in the same way.
\<close>

theorem extractDescription_needs_heading:
  "extractDescription ''Track every night of sleep with gentle insights.'' = None \<and>
   describedBody ''Track every night of sleep with gentle insights.''
     = Some ''Track every night of sleep with gentle insights.'' \<and>
   extractDescription ''Here is the text:\<newline># Description\<newline>Track every night of sleep.''
     = Some ''Track every night of sleep.'' \<and>
   describedBody ''Here is the text:\<newline># Description\<newline>Track every night of sleep.''
     = Some ''Here is the text:\<newline>Track every night of sleep.''"
  by (simp add: extractDescription_def describedBody_def line_tests)

lemma stringify_optStr: "stringify (optStr v) = map_option Str v"
  by (cases v) (simp_all add: optStr_def)

lemma stringifyElements_strings: "stringifyElements (map JStr ks) = map Str ks"
  by (induction ks) simp_all

lemma stringify_optStrs: "stringify (optStrs v) = map_option (\<lambda>ks. Arr (map Str ks)) v"
  by (cases v) (simp_all add: optStrs_def stringifyElements_strings)

lemma exportedDocument_eq:
  "exportedDocument m =
     Some (Obj [(''configVersion'', Num 0),
                (''apple'', Obj [(''info'', Obj [(''en-US'', Obj (populatedFields m))])])])"
  by (simp add: exportedDocument_def buildStoreConfig_def populatedFields_def
        stringify_optStr stringify_optStrs split: option.splits)

lemma populated_title: "map_of (populatedFields m) ''title'' = map_option Str (title m)"
  by (simp add: populatedFields_def split: option.splits)
lemma populated_subtitle: "map_of (populatedFields m) ''subtitle'' = map_option Str (subtitle m)"
  by (simp add: populatedFields_def split: option.splits)
lemma populated_description:
  "map_of (populatedFields m) ''description'' = map_option Str (description m)"
  by (simp add: populatedFields_def split: option.splits)
lemma populated_keywords:
  "map_of (populatedFields m) ''keywords'' = map_option (\<lambda>ks. Arr (map Str ks)) (keywordList m)"
  by (simp add: populatedFields_def split: option.splits)
lemma populated_releaseNotes:
  "map_of (populatedFields m) ''releaseNotes'' = map_option Str (releaseNotes m)"
  by (simp add: populatedFields_def split: option.splits)
lemma populated_promoText:
  "map_of (populatedFields m) ''promoText'' = map_option Str (promoText m)"
  by (simp add: populatedFields_def split: option.splits)

text \<open>
  C7. The document exported for a \<open>GeneratedMetadata\<close> has \<open>configVersion\<close> 0, and its
  object at \<open>apple.info["en-US"]\<close> holds the populated fields among title, subtitle,
  description, keywords, releaseNotes and promoText and nothing else: the key of a field
  that is not set is absent, and no value is \<open>null\<close>. (The object that \<open>buildStoreConfig\<close>
  returns stores \<open>undefined\<close> under such a key; \<open>JSON.stringify\<close> leaves the key out.)
\<close>

theorem exported_config_populated_fields:
  "exportedConfigVersion m = Some (Num 0) \<and>
   exportedInfo m = Some (Obj (populatedFields m)) \<and>
   exportedField m ''title'' = map_option Str (title m) \<and>
   exportedField m ''subtitle'' = map_option Str (subtitle m) \<and>
   exportedField m ''description'' = map_option Str (description m) \<and>
   exportedField m ''keywords'' = map_option (\<lambda>ks. Arr (map Str ks)) (keywordList m) \<and>
   exportedField m ''releaseNotes'' = map_option Str (releaseNotes m) \<and>
   exportedField m ''promoText'' = map_option Str (promoText m)"
  by (simp add: exportedConfigVersion_def exportedInfo_def exportedField_def
        exportedDocument_eq member_def enUS_def populated_title populated_subtitle
        populated_description populated_keywords populated_releaseNotes populated_promoText)

text \<open>With only \<open>title\<close> and \<open>keywords\<close> set, the other four keys are absent.\<close>

theorem exported_config_populated_fields_witness:
  "exportedInfo
     \<lparr>title = Some ''Snap & Track'', subtitle = None, description = None,
      keywordList = Some [''fitness'', ''tracker''], releaseNotes = None, promoText = None,
      iconPath = Some ''icon.png'', featureGraphicPath = None\<rparr>
     = Some (Obj [(''title'', Str ''Snap & Track''),
                  (''keywords'', Arr [Str ''fitness'', Str ''tracker''])]) \<and>
   exportedField
     \<lparr>title = Some ''Snap & Track'', subtitle = None, description = None,
      keywordList = Some [''fitness'', ''tracker''], releaseNotes = None, promoText = None,
      iconPath = Some ''icon.png'', featureGraphicPath = None\<rparr> ''subtitle'' = None \<and>
   exportedField
     \<lparr>title = Some ''Snap & Track'', subtitle = None, description = None,
      keywordList = Some [''fitness'', ''tracker''], releaseNotes = None, promoText = None,
      iconPath = Some ''icon.png'', featureGraphicPath = None\<rparr> ''description'' = None \<and>
   exportedField
     \<lparr>title = Some ''Snap & Track'', subtitle = None, description = None,
      keywordList = Some [''fitness'', ''tracker''], releaseNotes = None, promoText = None,
      iconPath = Some ''icon.png'', featureGraphicPath = None\<rparr> ''releaseNotes'' = None \<and>
   exportedField
     \<lparr>title = Some ''Snap & Track'', subtitle = None, description = None,
      keywordList = Some [''fitness'', ''tracker''], releaseNotes = None, promoText = None,
      iconPath = Some ''icon.png'', featureGraphicPath = None\<rparr> ''promoText'' = None"
  using exported_config_populated_fields
    [of "\<lparr>title = Some ''Snap & Track'', subtitle = None, description = None,
        keywordList = Some [''fitness'', ''tracker''], releaseNotes = None, promoText = None,
        iconPath = Some ''icon.png'', featureGraphicPath = None\<rparr>"]
  by (simp add: populatedFields_def)

section \<open>Properties of the command parser\<close>

lemma lowerChar_space:
  assumes a: "lowerChar c = CHR 0x20"
  shows "c = CHR 0x20"
proof (cases c)
  case (Char b0 b1 b2 b3 b4 b5 b6 b7)
  show ?thesis
  proof (cases "(65 \<le> (of_char c :: nat) \<and> (of_char c :: nat) \<le> 90)
      \<or> (192 \<le> (of_char c :: nat) \<and> (of_char c :: nat) \<le> 222 \<and> (of_char c :: nat) \<noteq> 215)")
    case False
    with a show ?thesis by (simp add: lowerChar_def Let_def)
  next
    case True
    with a have "Char b0 b1 b2 b3 b4 True b6 b7 = CHR 0x20"
      unfolding lowerChar_def Let_def Char by (simp only: if_True char.case)
    then have "\<not> b0 \<and> \<not> b1 \<and> \<not> b2 \<and> \<not> b3 \<and> \<not> b4 \<and> \<not> b6 \<and> \<not> b7" by simp
    with Char have "(of_char c :: nat) \<le> 32" by (cases b5) simp_all
    with True show ?thesis by arith
  qed
qed

lemma trim_eq_Nil: "trim s = [] \<longleftrightarrow> (\<forall>c\<in>set s. isWhiteSpace c)"
proof -
  have "trim s = [] \<longleftrightarrow> (\<forall>c\<in>set (dropWhile isWhiteSpace s). isWhiteSpace c)"
    by (simp add: trim_def dropWhile_eq_Nil_conv)
  also have "\<dots> \<longleftrightarrow> dropWhile isWhiteSpace s = []"
  proof
    assume h: "\<forall>c\<in>set (dropWhile isWhiteSpace s). isWhiteSpace c"
    show "dropWhile isWhiteSpace s = []"
    proof (rule ccontr)
      assume ne: "dropWhile isWhiteSpace s \<noteq> []"
      then have "\<not> isWhiteSpace (hd (dropWhile isWhiteSpace s))" by (rule hd_dropWhile)
      moreover from ne have "hd (dropWhile isWhiteSpace s) \<in> set (dropWhile isWhiteSpace s)"
        by simp
      ultimately show False using h by blast
    qed
  next
    assume e: "dropWhile isWhiteSpace s = []"
    show "\<forall>c\<in>set (dropWhile isWhiteSpace s). isWhiteSpace c"
      unfolding e by simp
  qed
  also have "\<dots> \<longleftrightarrow> (\<forall>c\<in>set s. isWhiteSpace c)"
    by (simp add: dropWhile_eq_Nil_conv)
  finally show ?thesis .
qed

lemma trim_last: "trim s \<noteq> [] \<Longrightarrow> \<not> isWhiteSpace (last (trim s))"
proof -
  assume ne: "trim s \<noteq> []"
  let ?d = "dropWhile isWhiteSpace (rev (dropWhile isWhiteSpace s))"
  from ne have d: "?d \<noteq> []" by (simp add: trim_def)
  then have "\<not> isWhiteSpace (hd ?d)" by (rule hd_dropWhile)
  moreover from d have "last (trim s) = hd ?d" by (simp add: trim_def last_rev)
  ultimately show ?thesis by simp
qed

lemma payload_not_empty:
  assumes sw: "startsWith (toLowerCase (trim input)) pfx"
    and sp: "pfx \<noteq> [] \<and> last pfx = CHR 0x20"
    and n: "length pfx = n"
  shows "trim (slice (trim input) n) \<noteq> []"
proof -
  let ?t = "trim input"
  from sw n have tk: "take n (map lowerChar ?t) = pfx"
    by (simp add: startsWith_def toLowerCase_def)
  then have "length (take n (map lowerChar ?t)) = n" using n by simp
  then have len: "n \<le> length ?t" by simp
  from sp n have "0 < n" by auto
  with len have ne: "?t \<noteq> []" by auto
  then have nws: "\<not> isWhiteSpace (last ?t)" by (rule trim_last)
  have "length ?t \<noteq> n"
  proof
    assume eq: "length ?t = n"
    with tk have "map lowerChar ?t = pfx" by simp
    then have "last (map lowerChar ?t) = CHR 0x20" using sp by simp
    with ne have "lowerChar (last ?t) = CHR 0x20" by (simp add: last_map)
    then have "last ?t = CHR 0x20" by (rule lowerChar_space)
    with nws show False by (simp add: isWhiteSpace_def)
  qed
  with len have lt: "n < length ?t" by simp
  then have dne: "drop n ?t \<noteq> []" by simp
  from lt have "last (drop n ?t) = last ?t" by simp
  with nws dne have "\<exists>c\<in>set (drop n ?t). \<not> isWhiteSpace c"
    using last_in_set by metis
  then show ?thesis by (simp add: trim_eq_Nil slice_def)
qed

lemma startsWith_nth: "startsWith s p \<Longrightarrow> i < length p \<Longrightarrow> s ! i = p ! i"
  by (metis startsWith_def nth_take)

lemma score_not_icon:
  "startsWith s ''/icon '' \<Longrightarrow> \<not> startsWith s ''/score ''"
  using startsWith_nth [of s "''/icon ''" 1] startsWith_nth [of s "''/score ''" 1] by auto

lemma score_not_feature:
  "startsWith s ''/feature '' \<or> startsWith s ''/graphic '' \<Longrightarrow> \<not> startsWith s ''/score ''"
  using startsWith_nth [of s "''/feature ''" 1] startsWith_nth [of s "''/graphic ''" 1]
    startsWith_nth [of s "''/score ''" 1] by auto

lemma icon_not_feature:
  "startsWith s ''/feature '' \<or> startsWith s ''/graphic '' \<Longrightarrow> \<not> startsWith s ''/icon ''"
  using startsWith_nth [of s "''/feature ''" 1] startsWith_nth [of s "''/graphic ''" 1]
    startsWith_nth [of s "''/icon ''" 1] by auto

text \<open>
  C5, as the code has it. When the trimmed line starts, in any case, with \<open>/score \<close>,
  \<open>/icon \<close>, \<open>/feature \<close> or \<open>/graphic \<close>, \<open>parseCommand\<close> strips the prefix and takes
  the trimmed remainder as the payload, and that payload is never empty. The forms
  without an argument come from the alias table: a line that trims to \<open>/icon\<close>,
  \<open>/feature\<close> or \<open>/graphic\<close> (in any case) gives the icon or feature command without a
  prompt. A line that trims to \<open>/score\<close> gives a chat command whose message is the
  trimmed line.
\<close>

theorem parseCommand_prefixes:
  "(startsWith (toLowerCase (trim input)) ''/score '' \<longrightarrow>
      parseCommand input = Parsed (Score (trim (slice (trim input) 7))) \<and>
      trim (slice (trim input) 7) \<noteq> []) \<and>
   (startsWith (toLowerCase (trim input)) ''/icon '' \<longrightarrow>
      parseCommand input = Parsed (Icon (Some (trim (slice (trim input) 6)))) \<and>
      trim (slice (trim input) 6) \<noteq> []) \<and>
   (startsWith (toLowerCase (trim input)) ''/feature '' \<or>
    startsWith (toLowerCase (trim input)) ''/graphic '' \<longrightarrow>
      parseCommand input = Parsed (Feature (Some (trim (slice (trim input) 9)))) \<and>
      trim (slice (trim input) 9) \<noteq> []) \<and>
   (toLowerCase (trim input) = ''/icon'' \<longrightarrow> parseCommand input = Parsed (Icon None)) \<and>
   (toLowerCase (trim input) = ''/feature'' \<or> toLowerCase (trim input) = ''/graphic'' \<longrightarrow>
      parseCommand input = Parsed (Feature None)) \<and>
   (toLowerCase (trim input) = ''/score'' \<longrightarrow> parseCommand input = Parsed (Chat (trim input)))"
proof (intro conjI impI)
  assume h: "startsWith (toLowerCase (trim input)) ''/score ''"
  then show ne: "trim (slice (trim input) 7) \<noteq> []"
    using payload_not_empty [of input "''/score ''" 7] by simp
  with h show "parseCommand input = Parsed (Score (trim (slice (trim input) 7)))"
    by (simp add: parseCommand_def Let_def)
next
  assume h: "startsWith (toLowerCase (trim input)) ''/icon ''"
  then show ne: "trim (slice (trim input) 6) \<noteq> []"
    using payload_not_empty [of input "''/icon ''" 6] by simp
  from h have ns: "\<not> startsWith (toLowerCase (trim input)) ''/score ''"
    by (rule score_not_icon)
  with h ne show "parseCommand input = Parsed (Icon (Some (trim (slice (trim input) 6))))"
    by (simp add: parseCommand_def parseRest_def orUndefined_def Let_def)
next
  assume h: "startsWith (toLowerCase (trim input)) ''/feature '' \<or>
    startsWith (toLowerCase (trim input)) ''/graphic ''"
  then show ne: "trim (slice (trim input) 9) \<noteq> []"
    using payload_not_empty [of input "''/feature ''" 9] payload_not_empty [of input "''/graphic ''" 9]
    by auto
  from h have ns: "\<not> startsWith (toLowerCase (trim input)) ''/score ''"
     and ni: "\<not> startsWith (toLowerCase (trim input)) ''/icon ''"
    by (rule score_not_feature, rule icon_not_feature)
  with h ne show "parseCommand input = Parsed (Feature (Some (trim (slice (trim input) 9))))"
    by (simp add: parseCommand_def parseRest_def orUndefined_def Let_def)
next
  assume h: "toLowerCase (trim input) = ''/icon''"
  then show "parseCommand input = Parsed (Icon None)"
    by (simp add: parseCommand_def parseRest_def Let_def startsWith_def COMMAND_MAP_def)
next
  assume h: "toLowerCase (trim input) = ''/feature'' \<or> toLowerCase (trim input) = ''/graphic''"
  then show "parseCommand input = Parsed (Feature None)"
    by (auto simp add: parseCommand_def parseRest_def Let_def startsWith_def COMMAND_MAP_def)
next
  assume h: "toLowerCase (trim input) = ''/score''"
  then have "trim input \<noteq> []" by (auto simp: toLowerCase_def)
  with h show "parseCommand input = Parsed (Chat (trim input))"
    by (auto simp add: parseCommand_def parseRest_def Let_def startsWith_def COMMAND_MAP_def)
qed

theorem parseCommand_prefixes_witness:
  "parseCommand ''  /SCORE  Foo Bar '' = Parsed (Score ''Foo Bar'') \<and>
   parseCommand ''/Icon  a Cat'' = Parsed (Icon (Some ''a Cat'')) \<and>
   parseCommand ''/graphic x'' = Parsed (Feature (Some ''x'')) \<and>
   parseCommand ''/ICON '' = Parsed (Icon None) \<and>
   parseCommand ''/Feature'' = Parsed (Feature None) \<and>
   parseCommand ''/Score'' = Parsed (Chat ''/Score'')"
  using parseCommand_prefixes [of "''  /SCORE  Foo Bar ''"]
    parseCommand_prefixes [of "''/Icon  a Cat''"]
    parseCommand_prefixes [of "''/graphic x''"]
    parseCommand_prefixes [of "''/ICON ''"]
    parseCommand_prefixes [of "''/Feature''"]
    parseCommand_prefixes [of "''/Score''"]
  by (simp add: trim_def isWhiteSpace_def toLowerCase_def lowerChar_def startsWith_def slice_def)

text \<open>
  C5 as stated fails: \<open>/score\<close> followed only by white space is a chat command, not a
  score command, and a line that merely starts with \<open>/icon\<close> is not an icon command.
\<close>

theorem score_without_keyword_is_chat:
  "parseCommand ''/score   '' = Parsed (Chat ''/score'') \<and>
   parseCommand ''/iconic'' = Parsed (Chat ''/iconic'')"
  by (simp add: parseCommand_def parseRest_def trim_def isWhiteSpace_def toLowerCase_def
        lowerChar_def startsWith_def slice_def COMMAND_MAP_def)

section \<open>Properties of streaming\<close>

lemma onEvent_outputBuf: "outputBuf (fst (onEvent ev h svc)) = outputBuf h @ deltaText ev"
  by (cases ev) (auto simp: deltaText_def settle_def Let_def split: option.splits list.splits QuotaSnapshot.splits prod.splits)

lemma onEvent_settled:
  "settled (fst (onEvent ev h svc)) = (case settled h of Some s \<Rightarrow> Some s | None \<Rightarrow> terminal ev)"
  by (cases ev) (auto simp: terminal_def settle_def Let_def split: option.splits list.splits QuotaSnapshot.splits prod.splits)

lemma dispatch_outputBuf:
  "map outputBuf (fst (dispatch ev hs svc)) = map (\<lambda>h. outputBuf h @ deltaText ev) hs"
proof (induction hs arbitrary: svc)
  case Nil
  show ?case by simp
next
  case (Cons h hs)
  obtain h' svc' where o: "onEvent ev h svc = (h', svc')" by (cases "onEvent ev h svc")
  obtain hs' svc'' where d: "dispatch ev hs svc' = (hs', svc'')" by (cases "dispatch ev hs svc'")
  from o have "outputBuf h' = outputBuf h @ deltaText ev"
    using onEvent_outputBuf [of ev h svc] by simp
  moreover from d have "map outputBuf hs' = map (\<lambda>h. outputBuf h @ deltaText ev) hs"
    using Cons.IH [of svc'] by simp
  ultimately show ?case using o d by simp
qed

lemma dispatch_settled:
  "map settled (fst (dispatch ev hs svc))
     = map (\<lambda>h. case settled h of Some s \<Rightarrow> Some s | None \<Rightarrow> terminal ev) hs"
proof (induction hs arbitrary: svc)
  case Nil
  show ?case by simp
next
  case (Cons h hs)
  obtain h' svc' where o: "onEvent ev h svc = (h', svc')" by (cases "onEvent ev h svc")
  obtain hs' svc'' where d: "dispatch ev hs svc' = (hs', svc'')" by (cases "dispatch ev hs svc'")
  from o have "settled h' = (case settled h of Some s \<Rightarrow> Some s | None \<Rightarrow> terminal ev)"
    using onEvent_settled [of ev h svc] by simp
  moreover from d have "map settled hs'
      = map (\<lambda>h. case settled h of Some s \<Rightarrow> Some s | None \<Rightarrow> terminal ev) hs"
    using Cons.IH [of svc'] by simp
  ultimately show ?case using o d by simp
qed

lemma deliver_outputBuf:
  "map outputBuf (fst (deliver evs hs svc))
     = map (\<lambda>h. outputBuf h @ concat (map deltaText evs)) hs"
proof (induction evs arbitrary: hs svc)
  case Nil
  show ?case by simp
next
  case (Cons ev evs)
  obtain hs' svc' where d: "dispatch ev hs svc = (hs', svc')" by (cases "dispatch ev hs svc")
  then have "map outputBuf hs' = map (\<lambda>h. outputBuf h @ deltaText ev) hs"
    using dispatch_outputBuf [of ev hs svc] by simp
  moreover have "map outputBuf (fst (deliver evs hs' svc'))
      = map (\<lambda>b. b @ concat (map deltaText evs)) (map outputBuf hs')"
    using Cons.IH [of hs' svc'] by (simp add: comp_def)
  ultimately show ?case using d by (simp add: comp_def)
qed

lemma deliver_settled:
  "map settled (fst (deliver evs hs svc))
     = map (\<lambda>h. case settled h of Some s \<Rightarrow> Some s | None \<Rightarrow> firstSettlement evs) hs"
proof (induction evs arbitrary: hs svc)
  case Nil
  show ?case by (simp add: option.case_eq_if)
next
  case (Cons ev evs)
  obtain hs' svc' where d: "dispatch ev hs svc = (hs', svc')" by (cases "dispatch ev hs svc")
  then have s: "map settled hs'
      = map (\<lambda>h. case settled h of Some s \<Rightarrow> Some s | None \<Rightarrow> terminal ev) hs"
    using dispatch_settled [of ev hs svc] by simp
  have "map settled (fst (deliver evs hs' svc'))
      = map (\<lambda>x. case x of Some s \<Rightarrow> Some s | None \<Rightarrow> firstSettlement evs) (map settled hs')"
    using Cons.IH [of hs' svc'] by (simp add: comp_def)
  with s d show ?case by (auto simp add: comp_def split: option.splits)
qed

lemma onEvent_frame:
  "generatedContent (snd (onEvent ev h svc)) = generatedContent svc \<and>
   backendCalls (snd (onEvent ev h svc)) = backendCalls svc \<and>
   currentModel (snd (onEvent ev h svc)) = currentModel svc \<and>
   client (snd (onEvent ev h svc)) = client svc \<and>
   session (snd (onEvent ev h svc)) = session svc"
  by (cases ev) (auto simp: Let_def split: option.splits list.splits QuotaSnapshot.splits prod.splits)

lemma dispatch_frame:
  "generatedContent (snd (dispatch ev hs svc)) = generatedContent svc \<and>
   backendCalls (snd (dispatch ev hs svc)) = backendCalls svc \<and>
   currentModel (snd (dispatch ev hs svc)) = currentModel svc \<and>
   client (snd (dispatch ev hs svc)) = client svc \<and>
   session (snd (dispatch ev hs svc)) = session svc"
proof (induction hs arbitrary: svc)
  case Nil
  show ?case by simp
next
  case (Cons h hs)
  obtain h' svc' where o: "onEvent ev h svc = (h', svc')" by (cases "onEvent ev h svc")
  obtain hs' svc'' where d: "dispatch ev hs svc' = (hs', svc'')" by (cases "dispatch ev hs svc'")
  from o onEvent_frame [of ev h svc] Cons.IH [of svc'] d show ?case by simp
qed

lemma deliver_frame:
  "generatedContent (snd (deliver evs hs svc)) = generatedContent svc \<and>
   backendCalls (snd (deliver evs hs svc)) = backendCalls svc \<and>
   currentModel (snd (deliver evs hs svc)) = currentModel svc \<and>
   client (snd (deliver evs hs svc)) = client svc \<and>
   session (snd (deliver evs hs svc)) = session svc"
proof (induction evs arbitrary: hs svc)
  case Nil
  show ?case by simp
next
  case (Cons ev evs)
  obtain hs' svc' where d: "dispatch ev hs svc = (hs', svc')" by (cases "dispatch ev hs svc")
  from d dispatch_frame [of ev hs svc] Cons.IH [of hs' svc'] show ?case by simp
qed

lemma onEvent_awaited: "awaited (fst (onEvent ev h svc)) = awaited h"
  by (cases ev) (auto simp: settle_def Let_def split: option.splits list.splits QuotaSnapshot.splits prod.splits)

lemma onEvent_handler: "fst (onEvent ev h svc) = handlerAfter ev h"
  unfolding handlerAfter_def
  by (cases ev) (auto simp: Let_def split: option.splits list.splits QuotaSnapshot.splits prod.splits)

lemma dispatch_handlers: "fst (dispatch ev hs svc) = map (handlerAfter ev) hs"
proof (induction hs arbitrary: svc)
  case Nil
  show ?case by simp
next
  case (Cons h hs)
  obtain h' svc' where o: "onEvent ev h svc = (h', svc')" by (cases "onEvent ev h svc")
  obtain hs' svc'' where d: "dispatch ev hs svc' = (hs', svc'')" by (cases "dispatch ev hs svc'")
  from o have "h' = handlerAfter ev h" using onEvent_handler [of ev h svc] by simp
  moreover from d have "hs' = map (handlerAfter ev) hs" using Cons.IH [of svc'] by simp
  ultimately show ?case using o d by simp
qed

lemma deliver_handlers: "fst (deliver evs hs svc) = map (fold handlerAfter evs) hs"
proof (induction evs arbitrary: hs svc)
  case Nil
  show ?case by simp
next
  case (Cons ev evs)
  obtain hs' svc' where d: "dispatch ev hs svc = (hs', svc')" by (cases "dispatch ev hs svc")
  then have "hs' = map (handlerAfter ev) hs" using dispatch_handlers [of ev hs svc] by simp
  with d Cons.IH [of hs' svc'] show ?case by (simp add: comp_def)
qed

lemma handlerAfter_fields:
  "settled (handlerAfter ev h) = (case settled h of Some s \<Rightarrow> Some s | None \<Rightarrow> terminal ev)"
  "awaited (handlerAfter ev h) = awaited h"
  "outputBuf (handlerAfter ev h) = outputBuf h @ deltaText ev"
  unfolding handlerAfter_def
  by (rule onEvent_settled, rule onEvent_awaited, rule onEvent_outputBuf)

lemma firstSettlement_app:
  "firstSettlement (xs @ ys)
     = (case firstSettlement xs of Some s \<Rightarrow> Some s | None \<Rightarrow> firstSettlement ys)"
  by (induction xs) (auto split: option.splits)

lemma fold_handlerAfter_settled:
  "settled (fold handlerAfter evs h)
     = (case settled h of Some s \<Rightarrow> Some s | None \<Rightarrow> firstSettlement evs)"
  by (induction evs arbitrary: h) (auto simp: handlerAfter_fields split: option.splits)

lemma fold_handlerAfter_awaited: "awaited (fold handlerAfter evs h) = awaited h"
  by (induction evs arbitrary: h) (auto simp: handlerAfter_fields)

lemma fold_handlerAfter_outputBuf:
  "outputBuf (fold handlerAfter evs h) = outputBuf h @ concat (map deltaText evs)"
  by (induction evs arbitrary: h) (auto simp: handlerAfter_fields)

lemma orphaned_fold:
  "orphaned (fold handlerAfter evs h) \<longleftrightarrow> orphaned h \<or> (unawaited h \<and> rejecting evs)"
  by (auto simp: orphaned_def unawaited_def rejecting_def fold_handlerAfter_settled
        fold_handlerAfter_awaited split: option.splits settlement.splits)

lemma list_ex_orphaned_fold:
  "list_ex orphaned (map (fold handlerAfter evs) hs)
     \<longleftrightarrow> list_ex orphaned hs \<or> (list_ex unawaited hs \<and> rejecting evs)"
  by (auto simp: list_ex_iff orphaned_fold)

lemma rejecting_app:
  "rejecting (xs @ ys) \<longleftrightarrow> rejecting xs \<or> (firstSettlement xs = None \<and> rejecting ys)"
  by (auto simp: rejecting_def firstSettlement_app split: option.splits settlement.splits)

lemma newHandler_fields:
  "settled (newHandler ct) = None" "awaited (newHandler ct) = False"
  "outputBuf (newHandler ct) = []"
  by (simp_all add: newHandler_def)

lemma newHandler_orphaned:
  "\<not> orphaned (newHandler ct)" "unawaited (newHandler ct)"
  by (simp_all add: orphaned_def unawaited_def newHandler_fields)

lemma awaited_not_orphaned:
  "awaited h \<Longrightarrow> \<not> orphaned h" "awaited h \<Longrightarrow> \<not> unawaited h"
  by (auto simp: orphaned_def unawaited_def split: option.splits settlement.splits)

text \<open>
  \<open>streamGeneration\<close> on a service with a session, with the handlers after each phase
  written out.
\<close>

lemma streamGeneration_unfold:
  assumes sess: "session svc = Some sess"
  shows "streamGeneration svc prompt ct reply =
     (if list_ex orphaned (handlers sess) \<or> rejecting (eventsDuringSend reply) then
        (Crashes,
         (snd (deliver (eventsDuringSend reply) (handlers sess @ [newHandler ct])
                 (svc\<lparr>backendCalls := backendCalls svc @ [Send prompt]\<rparr>)))
         \<lparr>session := Some (sess\<lparr>handlers :=
             map (fold handlerAfter (eventsDuringSend reply)) (handlers sess @ [newHandler ct])\<rparr>)\<rparr>)
      else
        (case sendError reply of
           Some e \<Rightarrow>
             (Rejects e,
              (snd (deliver (eventsDuringSend reply) (handlers sess @ [newHandler ct])
                      (svc\<lparr>backendCalls := backendCalls svc @ [Send prompt]\<rparr>)))
              \<lparr>session := Some (sess\<lparr>handlers :=
                  map (fold handlerAfter (eventsDuringSend reply))
                    (handlers sess @ [newHandler ct])\<rparr>)\<rparr>)
         | None \<Rightarrow>
             ((if list_ex unawaited (handlers sess)
                    \<and> rejecting (eventsDuringSend reply @ events reply)
               then thenCrashes else id)
                (awaitDone (fold handlerAfter (events reply)
                   ((fold handlerAfter (eventsDuringSend reply) (newHandler ct))
                      \<lparr>awaited := True\<rparr>))),
              (snd (deliver (events reply)
                      (map (fold handlerAfter (eventsDuringSend reply)) (handlers sess)
                         @ [(fold handlerAfter (eventsDuringSend reply) (newHandler ct))
                              \<lparr>awaited := True\<rparr>])
                      (snd (deliver (eventsDuringSend reply) (handlers sess @ [newHandler ct])
                              (svc\<lparr>backendCalls := backendCalls svc @ [Send prompt]\<rparr>)))))
              \<lparr>session := Some (sess\<lparr>handlers :=
                  map (fold handlerAfter (eventsDuringSend reply @ events reply)) (handlers sess)
                    @ [fold handlerAfter (events reply)
                         ((fold handlerAfter (eventsDuringSend reply) (newHandler ct))
                            \<lparr>awaited := True\<rparr>)]\<rparr>)\<rparr>)))"
proof -
  let ?E1 = "eventsDuringSend reply"
  let ?E2 = "events reply"
  let ?stale = "handlers sess"
  let ?new = "newHandler ct"
  let ?svc1 = "svc\<lparr>backendCalls := backendCalls svc @ [Send prompt]\<rparr>"
  let ?new1 = "(fold handlerAfter ?E1 ?new)\<lparr>awaited := True\<rparr>"
  obtain hs1 svc2 where d1: "deliver ?E1 (?stale @ [?new]) ?svc1 = (hs1, svc2)"
    by (cases "deliver ?E1 (?stale @ [?new]) ?svc1")
  have h1: "hs1 = map (fold handlerAfter ?E1) ?stale @ [fold handlerAfter ?E1 ?new]"
    using d1 deliver_handlers [of ?E1 "?stale @ [?new]" ?svc1] by simp
  have c1: "list_ex orphaned hs1 \<longleftrightarrow> list_ex orphaned ?stale \<or> rejecting ?E1"
    unfolding h1 by (auto simp: list_ex_orphaned_fold orphaned_fold newHandler_orphaned)
  have b1: "butlast hs1 @ [(last hs1)\<lparr>awaited := True\<rparr>]
      = map (fold handlerAfter ?E1) ?stale @ [?new1]"
    unfolding h1 by simp
  obtain hs2 svc3 where d2: "deliver ?E2 (map (fold handlerAfter ?E1) ?stale @ [?new1]) svc2 = (hs2, svc3)"
    by (cases "deliver ?E2 (map (fold handlerAfter ?E1) ?stale @ [?new1]) svc2")
  have h2: "hs2 = map (fold handlerAfter (?E1 @ ?E2)) ?stale @ [fold handlerAfter ?E2 ?new1]"
    using d2 deliver_handlers [of ?E2 "map (fold handlerAfter ?E1) ?stale @ [?new1]" svc2]
    by (simp add: comp_def)
  have "\<not> orphaned (fold handlerAfter ?E2 ?new1)"
    by (rule awaited_not_orphaned) (simp add: fold_handlerAfter_awaited)
  moreover have "list_ex orphaned (map (fold handlerAfter (?E1 @ ?E2)) ?stale)
      \<longleftrightarrow> list_ex orphaned ?stale \<or> (list_ex unawaited ?stale \<and> rejecting (?E1 @ ?E2))"
    by (rule list_ex_orphaned_fold)
  ultimately have c2: "list_ex orphaned hs2
      \<longleftrightarrow> list_ex orphaned ?stale \<or> (list_ex unawaited ?stale \<and> rejecting (?E1 @ ?E2))"
    unfolding h2 by (simp del: fold_append)
  have l2: "last hs2 = fold handlerAfter ?E2 ?new1" unfolding h2 by simp
  show ?thesis
    using sess d1 d2 c1 c2 b1 l2 h1 h2
    by (simp add: streamGeneration_def Let_def split: option.splits)
qed

lemma awaitDone_fold:
  "awaitDone (fold handlerAfter evs2 ((fold handlerAfter evs1 (newHandler ct))\<lparr>awaited := True\<rparr>))
     = (case firstSettlement (evs1 @ evs2) of
          None \<Rightarrow> Pending
        | Some Resolved \<Rightarrow> Resolves (concat (map deltaText (evs1 @ evs2)))
        | Some (Rejected m) \<Rightarrow> Rejects m)"
  by (simp add: awaitDone_def fold_handlerAfter_settled fold_handlerAfter_outputBuf
        newHandler_fields firstSettlement_app split: option.splits settlement.splits)

lemma streamGeneration_outcome:
  assumes "session svc \<noteq> None"
  shows "fst (streamGeneration svc prompt ct reply)
           = (if unhandledDuringSend svc reply then Crashes
              else if unhandledAfterSend svc reply then thenCrashes (streamOutcome reply)
              else streamOutcome reply)"
proof -
  from assms obtain sess where sess: "session svc = Some sess" by auto
  show ?thesis
    unfolding streamGeneration_unfold [OF sess]
    by (auto simp: unhandledDuringSend_def unhandledAfterSend_def orphanedPromise_def
          unawaitedPromise_def sess streamOutcome_def awaitDone_fold rejecting_app
          split: option.splits settlement.splits)
qed

lemma streamGeneration_state:
  assumes "session svc \<noteq> None"
  shows "generatedContent (snd (streamGeneration svc prompt ct reply)) = generatedContent svc \<and>
         backendCalls (snd (streamGeneration svc prompt ct reply)) = backendCalls svc @ [Send prompt] \<and>
         currentModel (snd (streamGeneration svc prompt ct reply)) = currentModel svc \<and>
         client (snd (streamGeneration svc prompt ct reply)) = client svc \<and>
         session (snd (streamGeneration svc prompt ct reply)) \<noteq> None"
proof -
  from assms obtain sess where sess: "session svc = Some sess" by auto
  show ?thesis
    unfolding streamGeneration_unfold [OF sess]
    by (simp add: deliver_frame split: option.splits)
qed

lemma streamGeneration_awaited:
  assumes "everyPromiseAwaited svc" and "sendError reply = None"
    and "\<not> rejecting (eventsDuringSend reply)"
  shows "everyPromiseAwaited (snd (streamGeneration svc prompt ct reply))"
proof -
  from assms(1) obtain sess where sess: "session svc = Some sess"
    and aw: "list_all awaited (handlers sess)"
    by (auto simp: everyPromiseAwaited_def split: option.splits)
  from aw have no: "\<not> list_ex orphaned (handlers sess)"
    by (auto simp: list_ex_iff list_all_iff awaited_not_orphaned)
  show ?thesis
    unfolding streamGeneration_unfold [OF sess]
    using aw no assms(2,3)
    by (simp add: everyPromiseAwaited_def list_all_iff fold_handlerAfter_awaited)
qed

lemma awaited_promises:
  "everyPromiseAwaited svc \<Longrightarrow> session svc \<noteq> None"
  "everyPromiseAwaited svc \<Longrightarrow> \<not> orphanedPromise svc"
  "everyPromiseAwaited svc \<Longrightarrow> \<not> unawaitedPromise svc"
  by (auto simp: everyPromiseAwaited_def orphanedPromise_def unawaitedPromise_def list_all_iff
        list_ex_iff awaited_not_orphaned split: option.splits)

lemma awaited_unhandled:
  "everyPromiseAwaited svc \<Longrightarrow>
     unhandledDuringSend svc reply \<longleftrightarrow> rejecting (eventsDuringSend reply)"
  "everyPromiseAwaited svc \<Longrightarrow> \<not> unhandledAfterSend svc reply"
  by (simp_all add: unhandledDuringSend_def unhandledAfterSend_def awaited_promises)

lemma streamGeneration_no_session:
  "session svc = None \<Longrightarrow>
     streamGeneration svc prompt ct reply = (RejectsThenCrashes undefinedSessionMessage, svc)"
  by (simp add: streamGeneration_def)

lemma connectedService_fields:
  "client (connectedService m) = Some \<lparr>autoStart = True, autoRestart = True\<rparr>"
  "currentModel (connectedService m) = m"
  "session (connectedService m)
     = Some \<lparr>config = \<lparr>model = m, streaming = True, mcpServers = MCP_SERVERS,
                          systemMessage = (''append'', SYSTEM_PROMPT_ASO)\<rparr>,
             handlers = [], destroyCalled = False\<rparr>"
  by (simp_all add: connectedService_def initialize_def newCopilotService_def Let_def)

lemma connectedService_session: "session (connectedService m) \<noteq> None"
  by (simp add: connectedService_def initialize_def newCopilotService_def Let_def)

lemma connectedService_awaited: "everyPromiseAwaited (connectedService m)"
  by (simp add: everyPromiseAwaited_def connectedService_def initialize_def
        newCopilotService_def Let_def)

text \<open>
  C1. Whatever events are delivered, the buffer of every registered handler, and so that
  of the request in flight, grows by the texts of the message-delta events in the order
  of their arrival; a tool-execution-start or tool-execution-complete event leaves the
  buffer as it is. On a service with a session, a request ends as the first idle or error
  event says, an idle event resolving it with the accumulated text, unless a promise that
  nothing awaits is rejected: before \<open>send\<close> settles, the process ends first; after it,
  the request rejects and the process ends then. Where no earlier request left a
  rejected promise that nothing awaits, a request whose \<open>send\<close> returns and whose first
  idle or error event is an idle event resolves with the texts of all its message-delta
  events, whether the events arrive while \<open>send\<close> is pending or after it.
\<close>

theorem deltas_accumulate_in_arrival_order:
  "map outputBuf (fst (deliver evs hs svc))
     = map (\<lambda>h. outputBuf h @ concat (map deltaText evs)) hs \<and>
   outputBuf (fst (onEvent (ToolExecutionStart toolName) h svc)) = outputBuf h \<and>
   outputBuf (fst (onEvent (ToolExecutionComplete ok) h svc)) = outputBuf h \<and>
   (session svc \<noteq> None \<longrightarrow>
      fst (streamGeneration svc prompt ct reply)
        = (if unhandledDuringSend svc reply then Crashes
           else if unhandledAfterSend svc reply then thenCrashes (streamOutcome reply)
           else streamOutcome reply)) \<and>
   (session svc \<noteq> None \<and> \<not> orphanedPromise svc \<and> sendError reply = None \<and>
    firstSettlement (eventsDuringSend reply @ events reply) = Some Resolved \<longrightarrow>
      fst (streamGeneration svc prompt ct reply)
        = Resolves (concat (map deltaText (eventsDuringSend reply @ events reply))))"
proof (intro conjI impI)
  show "map outputBuf (fst (deliver evs hs svc))
     = map (\<lambda>h. outputBuf h @ concat (map deltaText evs)) hs"
    by (rule deliver_outputBuf)
  show "outputBuf (fst (onEvent (ToolExecutionStart toolName) h svc)) = outputBuf h"
    by (cases toolName) simp_all
  show "outputBuf (fst (onEvent (ToolExecutionComplete ok) h svc)) = outputBuf h"
    by simp
  show "fst (streamGeneration svc prompt ct reply)
        = (if unhandledDuringSend svc reply then Crashes
           else if unhandledAfterSend svc reply then thenCrashes (streamOutcome reply)
           else streamOutcome reply)"
    if "session svc \<noteq> None"
    using that by (rule streamGeneration_outcome)
  show "fst (streamGeneration svc prompt ct reply)
        = Resolves (concat (map deltaText (eventsDuringSend reply @ events reply)))"
    if h: "session svc \<noteq> None \<and> \<not> orphanedPromise svc \<and> sendError reply = None \<and>
      firstSettlement (eventsDuringSend reply @ events reply) = Some Resolved"
  proof -
    from h have s: "session svc \<noteq> None" by simp
    from h have "\<not> rejecting (eventsDuringSend reply)"
      and "\<not> rejecting (eventsDuringSend reply @ events reply)"
      by (auto simp: rejecting_def firstSettlement_app split: option.splits settlement.splits)
    with h have "\<not> unhandledDuringSend svc reply" and "\<not> unhandledAfterSend svc reply"
      by (simp_all add: unhandledDuringSend_def unhandledAfterSend_def)
    with h streamGeneration_outcome [OF s, of prompt ct reply] show ?thesis
      by (simp add: streamOutcome_def)
  qed
qed

text \<open>
  The sequence delta A, delta B, tool start, tool complete, delta C, idle resolves with
  \<open>ABC\<close>: when it arrives after \<open>send\<close> has returned, when it starts to arrive while
  \<open>send\<close> is pending, and for a second request on a session that still holds the handler
  of a first one.
\<close>

theorem deltas_accumulate_in_arrival_order_witness:
  "fst (streamGeneration (connectedService ''gpt-4o'') (ContentPrompt Keywords) Keywords
      \<lparr>sendError = None, eventsDuringSend = [],
       events = [MessageDelta (Some ''A''), MessageDelta (Some ''B''),
                 ToolExecutionStart (Some ''get_keyword_scores''),
                 ToolExecutionComplete (Some True),
                 MessageDelta (Some ''C''), SessionIdle]\<rparr>)
     = Resolves ''ABC'' \<and>
   fst (streamGeneration (connectedService ''gpt-4o'') (ContentPrompt Keywords) Keywords
      \<lparr>sendError = None,
       eventsDuringSend = [MessageDelta (Some ''A''), MessageDelta (Some ''B''),
                           ToolExecutionStart (Some ''get_keyword_scores'')],
       events = [ToolExecutionComplete (Some True),
                 MessageDelta (Some ''C''), SessionIdle]\<rparr>)
     = Resolves ''ABC'' \<and>
   fst (streamGeneration
      (snd (streamGeneration (connectedService ''gpt-4o'') (ContentPrompt Title) Title
              \<lparr>sendError = None, eventsDuringSend = [],
               events = [MessageDelta (Some ''Old''), SessionIdle]\<rparr>))
      (ContentPrompt Keywords) Keywords
      \<lparr>sendError = None, eventsDuringSend = [],
       events = [MessageDelta (Some ''A''), MessageDelta (Some ''B''),
                 ToolExecutionStart (Some ''get_keyword_scores''),
                 ToolExecutionComplete (Some True),
                 MessageDelta (Some ''C''), SessionIdle]\<rparr>)
     = Resolves ''ABC''"
proof -
  let ?s0 = "connectedService ''gpt-4o''"
  let ?old = "\<lparr>sendError = None, eventsDuringSend = [],
               events = [MessageDelta (Some ''Old''), SessionIdle]\<rparr>"
  let ?s1 = "snd (streamGeneration ?s0 (ContentPrompt Title) Title ?old)"
  let ?abc = "\<lparr>sendError = None, eventsDuringSend = [],
               events = [MessageDelta (Some ''A''), MessageDelta (Some ''B''),
                 ToolExecutionStart (Some ''get_keyword_scores''),
                 ToolExecutionComplete (Some True),
                 MessageDelta (Some ''C''), SessionIdle]\<rparr>"
  let ?early = "\<lparr>sendError = None,
       eventsDuringSend = [MessageDelta (Some ''A''), MessageDelta (Some ''B''),
                           ToolExecutionStart (Some ''get_keyword_scores'')],
       events = [ToolExecutionComplete (Some True),
                 MessageDelta (Some ''C''), SessionIdle]\<rparr>"
  have a0: "everyPromiseAwaited ?s0" by (rule connectedService_awaited)
  have a1: "everyPromiseAwaited ?s1"
    by (rule streamGeneration_awaited [OF a0]) (simp_all add: rejecting_def)
  have h0: "session ?s0 \<noteq> None \<and> \<not> orphanedPromise ?s0 \<and> sendError ?abc = None \<and>
      firstSettlement (eventsDuringSend ?abc @ events ?abc) = Some Resolved"
    using awaited_promises(1,2) [OF a0] by (simp add: terminal_def)
  have h1: "session ?s0 \<noteq> None \<and> \<not> orphanedPromise ?s0 \<and> sendError ?early = None \<and>
      firstSettlement (eventsDuringSend ?early @ events ?early) = Some Resolved"
    using awaited_promises(1,2) [OF a0] by (simp add: terminal_def)
  have h2: "session ?s1 \<noteq> None \<and> \<not> orphanedPromise ?s1 \<and> sendError ?abc = None \<and>
      firstSettlement (eventsDuringSend ?abc @ events ?abc) = Some Resolved"
    using awaited_promises(1,2) [OF a1] by (simp add: terminal_def)
  note t = deltas_accumulate_in_arrival_order
      [where prompt = "ContentPrompt Keywords" and ct = Keywords,
       THEN conjunct2, THEN conjunct2, THEN conjunct2, THEN conjunct2, THEN mp]
  have "fst (streamGeneration ?s0 (ContentPrompt Keywords) Keywords ?abc)
      = Resolves (concat (map deltaText (eventsDuringSend ?abc @ events ?abc)))"
    by (rule t [OF h0])
  moreover have "fst (streamGeneration ?s0 (ContentPrompt Keywords) Keywords ?early)
      = Resolves (concat (map deltaText (eventsDuringSend ?early @ events ?early)))"
    by (rule t [OF h1])
  moreover have "fst (streamGeneration ?s1 (ContentPrompt Keywords) Keywords ?abc)
      = Resolves (concat (map deltaText (eventsDuringSend ?abc @ events ?abc)))"
    by (rule t [OF h2])
  ultimately show ?thesis by (simp add: deltaText_def)
qed

section \<open>Properties of generation\<close>

lemma firstSettlement_append:
  "firstSettlement pre = None \<Longrightarrow> firstSettlement (pre @ evs) = firstSettlement evs"
  by (induction pre) (auto split: option.splits)

lemma requestGeneration_result:
  "fst (requestGeneration svc ct reply) =
     (case fst (streamGeneration (svc\<lparr>spinner := SpinnerTextFor ct\<rparr>) (ContentPrompt ct) ct reply) of
        Pending \<Rightarrow> Pending
      | Crashes \<Rightarrow> Crashes
      | Resolves t \<Rightarrow> Resolves \<lparr>content = cleanOutput t, success = True, error = None\<rparr>
      | Rejects m \<Rightarrow> Resolves \<lparr>content = [], success = False, error = Some m\<rparr>
      | ResolvesThenCrashes t \<Rightarrow>
          ResolvesThenCrashes \<lparr>content = cleanOutput t, success = True, error = None\<rparr>
      | RejectsThenCrashes m \<Rightarrow>
          ResolvesThenCrashes \<lparr>content = [], success = False, error = Some m\<rparr>)"
  by (simp add: requestGeneration_def Let_def split: prod.splits outcome.splits)

lemma requestGeneration_unfold:
  assumes "streamGeneration (svc\<lparr>spinner := SpinnerTextFor ct\<rparr>) (ContentPrompt ct) ct reply
             = (r, svc2)"
  shows "requestGeneration svc ct reply =
     (case r of
        Pending \<Rightarrow> (Pending, svc2)
      | Crashes \<Rightarrow> (Crashes, svc2)
      | Resolves t \<Rightarrow>
          (Resolves \<lparr>content = cleanOutput t, success = True, error = None\<rparr>,
           svc2\<lparr>generatedContent := (generatedContent svc2)(ct \<mapsto> cleanOutput t),
                spinner := SuccessTextFor ct\<rparr>)
      | Rejects m \<Rightarrow>
          (Resolves \<lparr>content = [], success = False, error = Some m\<rparr>,
           svc2\<lparr>spinner := FailedToGenerate ct\<rparr>)
      | ResolvesThenCrashes t \<Rightarrow>
          (ResolvesThenCrashes \<lparr>content = cleanOutput t, success = True, error = None\<rparr>,
           svc2\<lparr>generatedContent := (generatedContent svc2)(ct \<mapsto> cleanOutput t),
                spinner := SuccessTextFor ct\<rparr>)
      | RejectsThenCrashes m \<Rightarrow>
          (ResolvesThenCrashes \<lparr>content = [], success = False, error = Some m\<rparr>,
           svc2\<lparr>spinner := FailedToGenerate ct\<rparr>))"
  using assms by (simp add: requestGeneration_def Let_def split: outcome.splits)

lemma requestGeneration_cache:
  "generatedContent (snd (requestGeneration svc ct reply)) =
     (case fst (streamGeneration (svc\<lparr>spinner := SpinnerTextFor ct\<rparr>) (ContentPrompt ct) ct reply) of
        Resolves t \<Rightarrow> (generatedContent svc)(ct \<mapsto> cleanOutput t)
      | ResolvesThenCrashes t \<Rightarrow> (generatedContent svc)(ct \<mapsto> cleanOutput t)
      | _ \<Rightarrow> generatedContent svc)"
proof -
  let ?svc1 = "svc\<lparr>spinner := SpinnerTextFor ct\<rparr>"
  obtain r svc2 where sg: "streamGeneration ?svc1 (ContentPrompt ct) ct reply = (r, svc2)"
    by (cases "streamGeneration ?svc1 (ContentPrompt ct) ct reply")
  have "generatedContent svc2 = generatedContent svc"
  proof (cases "session svc")
    case None
    with sg show ?thesis by (auto simp add: streamGeneration_no_session)
  next
    case (Some sess)
    then have "session ?svc1 \<noteq> None" by simp
    from streamGeneration_state [OF this, of "ContentPrompt ct" ct reply] sg
    show ?thesis by simp
  qed
  then show ?thesis
    by (cases r) (simp_all add: requestGeneration_unfold [OF sg] sg)
qed

lemma requestGeneration_calls:
  "backendCalls (snd (requestGeneration svc ct reply)) =
     backendCalls svc @ (if session svc = None then [] else [Send (ContentPrompt ct)])"
proof -
  let ?svc1 = "svc\<lparr>spinner := SpinnerTextFor ct\<rparr>"
  obtain r svc2 where sg: "streamGeneration ?svc1 (ContentPrompt ct) ct reply = (r, svc2)"
    by (cases "streamGeneration ?svc1 (ContentPrompt ct) ct reply")
  have "backendCalls svc2
      = backendCalls svc @ (if session svc = None then [] else [Send (ContentPrompt ct)])"
  proof (cases "session svc")
    case None
    with sg show ?thesis by (auto simp add: streamGeneration_no_session)
  next
    case (Some sess)
    then have "session ?svc1 \<noteq> None" by simp
    from streamGeneration_state [OF this, of "ContentPrompt ct" ct reply] sg Some
    show ?thesis by simp
  qed
  then show ?thesis
    by (cases r) (simp_all add: requestGeneration_unfold [OF sg])
qed

lemma requestGeneration_session:
  assumes "session svc \<noteq> None"
  shows "session (snd (requestGeneration svc ct reply)) \<noteq> None"
proof -
  let ?svc1 = "svc\<lparr>spinner := SpinnerTextFor ct\<rparr>"
  obtain r svc2 where sg: "streamGeneration ?svc1 (ContentPrompt ct) ct reply = (r, svc2)"
    by (cases "streamGeneration ?svc1 (ContentPrompt ct) ct reply")
  from assms have "session ?svc1 \<noteq> None" by simp
  from streamGeneration_state [OF this, of "ContentPrompt ct" ct reply] sg
  have "session svc2 \<noteq> None" by simp
  then show ?thesis
    by (cases r) (simp_all add: requestGeneration_unfold [OF sg])
qed

lemma generate_hit:
  "hasCached svc ct \<Longrightarrow>
     generate svc ct False reply =
       (Resolves \<lparr>content = the (generatedContent svc ct), success = True, error = None\<rparr>, svc)"
  by (auto simp: generate_def hasCached_def split: option.splits)

lemma generate_miss:
  "\<not> hasCached svc ct \<Longrightarrow> generate svc ct False reply = requestGeneration svc ct reply"
  by (auto simp: generate_def hasCached_def split: option.splits)

lemma generate_regenerate:
  "generate svc ct True reply =
     requestGeneration (svc\<lparr>generatedContent := (generatedContent svc)(ct := None)\<rparr>) ct reply"
  by (simp add: generate_def)

lemma session_only:
  "everyPromiseAwaited (svc\<lparr>spinner := x\<rparr>) = everyPromiseAwaited svc"
  "everyPromiseAwaited (svc\<lparr>generatedContent := g\<rparr>) = everyPromiseAwaited svc"
  "unhandledDuringSend (svc\<lparr>spinner := x\<rparr>) reply = unhandledDuringSend svc reply"
  "unhandledDuringSend (svc\<lparr>generatedContent := g\<rparr>) reply = unhandledDuringSend svc reply"
  "unhandledAfterSend (svc\<lparr>spinner := x\<rparr>) reply = unhandledAfterSend svc reply"
  "unhandledAfterSend (svc\<lparr>generatedContent := g\<rparr>) reply = unhandledAfterSend svc reply"
  by (simp_all add: everyPromiseAwaited_def unhandledDuringSend_def unhandledAfterSend_def
        orphanedPromise_def unawaitedPromise_def)

lemma requestGeneration_awaited:
  assumes "everyPromiseAwaited svc" and "sendError reply = None"
    and "\<not> rejecting (eventsDuringSend reply)"
  shows "everyPromiseAwaited (snd (requestGeneration svc ct reply))"
proof -
  let ?svc1 = "svc\<lparr>spinner := SpinnerTextFor ct\<rparr>"
  obtain r svc2 where sg: "streamGeneration ?svc1 (ContentPrompt ct) ct reply = (r, svc2)"
    by (cases "streamGeneration ?svc1 (ContentPrompt ct) ct reply")
  from assms(1) have "everyPromiseAwaited ?svc1" by (simp add: session_only)
  from streamGeneration_awaited [OF this assms(2,3), of "ContentPrompt ct" ct] sg
  have "everyPromiseAwaited svc2" by simp
  then show ?thesis
    by (cases r) (simp_all add: requestGeneration_unfold [OF sg] session_only)
qed

lemma requestGeneration_outcome:
  assumes "session svc \<noteq> None"
  shows "fst (requestGeneration svc ct reply) =
     (case (if unhandledDuringSend svc reply then Crashes
            else if unhandledAfterSend svc reply then thenCrashes (streamOutcome reply)
            else streamOutcome reply) of
        Pending \<Rightarrow> Pending
      | Crashes \<Rightarrow> Crashes
      | Resolves t \<Rightarrow> Resolves \<lparr>content = cleanOutput t, success = True, error = None\<rparr>
      | Rejects m \<Rightarrow> Resolves \<lparr>content = [], success = False, error = Some m\<rparr>
      | ResolvesThenCrashes t \<Rightarrow>
          ResolvesThenCrashes \<lparr>content = cleanOutput t, success = True, error = None\<rparr>
      | RejectsThenCrashes m \<Rightarrow>
          ResolvesThenCrashes \<lparr>content = [], success = False, error = Some m\<rparr>)"
proof -
  from assms have "session (svc\<lparr>spinner := SpinnerTextFor ct\<rparr>) \<noteq> None" by simp
  from streamGeneration_outcome [OF this, of "ContentPrompt ct" ct reply]
  show ?thesis by (simp only: requestGeneration_result session_only)
qed

lemma connectedService_cache: "generatedContent (connectedService m) = Map.empty"
  by (simp add: connectedService_def initialize_def newCopilotService_def Let_def)

lemma connectedService_calls:
  "backendCalls (connectedService m) =
     [ClientStart, GetAuthStatus,
      CreateSession \<lparr>model = m, streaming = True, mcpServers = MCP_SERVERS,
                     systemMessage = (''append'', SYSTEM_PROMPT_ASO)\<rparr>]"
  by (simp add: connectedService_def initialize_def newCopilotService_def Let_def)

text \<open>
  Where the claim of C2 holds. On a service with a session on which no earlier request
  left a promise that nothing awaits, when \<open>send\<close> returns before any idle or error
  event arrives and the first idle or error event after that is an error event that
  carries a message, \<open>streamGeneration\<close> rejects with that message; \<open>generate\<close>, when it
  sends the request, returns a failure with that message and an empty text, whatever had
  been accumulated, and writes no entry to the cache: the cache is what it was, less the
  entry that \<open>regenerate\<close> deleted.
\<close>

lemma late_error_event_rejects_without_caching:
  "session svc \<noteq> None \<and> \<not> orphanedPromise svc \<and> \<not> unawaitedPromise svc \<and>
   sendError reply = None \<and> firstSettlement (eventsDuringSend reply) = None \<and>
   events reply = pre @ SessionError (Some m) # post \<and>
   firstSettlement pre = None \<and> (regenerate \<or> \<not> hasCached svc ct) \<longrightarrow>
     fst (streamGeneration svc prompt ct reply) = Rejects m \<and>
     fst (generate svc ct regenerate reply)
       = Resolves \<lparr>content = [], success = False, error = Some m\<rparr> \<and>
     generatedContent (snd (generate svc ct regenerate reply))
       = (if regenerate then (generatedContent svc)(ct := None) else generatedContent svc)"
proof (intro impI, elim conjE)
  assume sess: "session svc \<noteq> None"
    and no: "\<not> orphanedPromise svc" and nu: "\<not> unawaitedPromise svc"
    and se: "sendError reply = None"
    and e1: "firstSettlement (eventsDuringSend reply) = None"
    and ev: "events reply = pre @ SessionError (Some m) # post"
    and pre: "firstSettlement pre = None"
    and miss: "regenerate \<or> \<not> hasCached svc ct"
  from ev pre e1
  have fs: "firstSettlement (eventsDuringSend reply @ events reply) = Some (Rejected m)"
    by (simp add: firstSettlement_app firstSettlement_append terminal_def)
  with se have so: "streamOutcome reply = Rejects m" by (simp add: streamOutcome_def)
  from no e1 have d: "\<not> unhandledDuringSend svc reply"
    by (simp add: unhandledDuringSend_def rejecting_def)
  from nu have a: "\<not> unhandledAfterSend svc reply" by (simp add: unhandledAfterSend_def)
  let ?svc1 = "if regenerate then svc\<lparr>generatedContent := (generatedContent svc)(ct := None)\<rparr>
               else svc"
  from miss have g: "generate svc ct regenerate reply = requestGeneration ?svc1 ct reply"
    by (cases regenerate) (simp_all add: generate_regenerate generate_miss)
  from sess have s1: "session (?svc1\<lparr>spinner := SpinnerTextFor ct\<rparr>) \<noteq> None" by simp
  from d a have n1: "\<not> unhandledDuringSend (?svc1\<lparr>spinner := SpinnerTextFor ct\<rparr>) reply"
    "\<not> unhandledAfterSend (?svc1\<lparr>spinner := SpinnerTextFor ct\<rparr>) reply"
    by (simp_all add: session_only)
  have o1: "fst (streamGeneration (?svc1\<lparr>spinner := SpinnerTextFor ct\<rparr>) (ContentPrompt ct) ct reply)
      = Rejects m"
    using streamGeneration_outcome [OF s1, of "ContentPrompt ct" ct reply] so n1 by simp
  show "fst (streamGeneration svc prompt ct reply) = Rejects m \<and>
     fst (generate svc ct regenerate reply)
       = Resolves \<lparr>content = [], success = False, error = Some m\<rparr> \<and>
     generatedContent (snd (generate svc ct regenerate reply))
       = (if regenerate then (generatedContent svc)(ct := None) else generatedContent svc)"
    using streamGeneration_outcome [OF sess, of prompt ct reply] so d a
      requestGeneration_result [of ?svc1 ct reply] requestGeneration_cache [of ?svc1 ct reply]
      o1 g
    by simp
qed

text \<open>
  After a request whose \<open>send\<close> threw, which \<open>generate\<close> reports as a failure, the
  handler of that request is still registered and its promise is never awaited. An error
  event of the next request, arriving after \<open>send\<close> has returned, rejects both promises:
  \<open>generate\<close> returns the failure with the message of the event, and the process ends on
  the rejection of the promise that nothing awaits.
\<close>

lemma error_event_after_failed_send_ends_process:
  "fst (generate (connectedService ''gpt-4o'') Title False
      \<lparr>sendError = Some ''offline'', eventsDuringSend = [], events = []\<rparr>)
     = Resolves \<lparr>content = [], success = False, error = Some ''offline''\<rparr> \<and>
   fst (generate
      (snd (generate (connectedService ''gpt-4o'') Title False
              \<lparr>sendError = Some ''offline'', eventsDuringSend = [], events = []\<rparr>))
      Title False
      \<lparr>sendError = None, eventsDuringSend = [],
       events = [MessageDelta (Some ''A''), SessionError (Some ''boom'')]\<rparr>)
     = ResolvesThenCrashes \<lparr>content = [], success = False, error = Some ''boom''\<rparr>"
proof -
  let ?s0 = "connectedService ''gpt-4o''"
  let ?throw = "\<lparr>sendError = Some ''offline'', eventsDuringSend = [], events = []\<rparr>"
  let ?late = "\<lparr>sendError = None, eventsDuringSend = [],
                events = [MessageDelta (Some ''A''), SessionError (Some ''boom'')]\<rparr>"
  let ?s1 = "snd (generate ?s0 Title False ?throw)"
  have c0: "session ?s0 \<noteq> None" by (rule connectedService_session)
  have m0: "\<not> hasCached ?s0 Title" by (simp add: hasCached_def connectedService_cache)
  have n0: "\<not> unhandledDuringSend ?s0 ?throw" "\<not> unhandledAfterSend ?s0 ?throw"
    by (simp_all add: awaited_unhandled [OF connectedService_awaited] rejecting_def)
  have g: "generate ?s0 Title False ?throw = requestGeneration ?s0 Title ?throw"
    using m0 by (rule generate_miss)
  have c: "fst (generate ?s0 Title False ?throw)
      = Resolves \<lparr>content = [], success = False, error = Some ''offline''\<rparr>"
    using requestGeneration_outcome [OF c0, of Title ?throw] n0 g
    by (simp add: streamOutcome_def)
  have c1: "session ?s1 \<noteq> None"
    using requestGeneration_session [OF c0, of Title ?throw] g by simp
  have "generatedContent ?s1 = generatedContent ?s0"
    using requestGeneration_cache [of ?s0 Title ?throw] requestGeneration_result [of ?s0 Title ?throw]
      c g
    by (simp split: outcome.splits)
  then have m1: "\<not> hasCached ?s1 Title" by (simp add: hasCached_def connectedService_cache)
  have u1: "\<not> unhandledDuringSend ?s1 ?late" "unhandledAfterSend ?s1 ?late"
    unfolding g
    by (simp_all add: requestGeneration_def streamGeneration_def Let_def connectedService_fields
          unhandledDuringSend_def unhandledAfterSend_def orphanedPromise_def
          unawaitedPromise_def newHandler_def orphaned_def unawaited_def rejecting_def
          terminal_def)
  have "fst (generate ?s1 Title False ?late)
      = ResolvesThenCrashes \<lparr>content = [], success = False, error = Some ''boom''\<rparr>"
    using requestGeneration_outcome [OF c1, of Title ?late] u1 generate_miss [OF m1, of ?late]
    by (simp add: streamOutcome_def thenCrashes_def terminal_def)
  with c show ?thesis by simp
qed

text \<open>
  C2 fails on the code. \<open>streamGeneration\<close> awaits \<open>send\<close> before it awaits \<open>done\<close>. When
  the error event arrives while \<open>send\<close> is pending, \<open>reject\<close> settles a promise that
  nothing awaits yet, and the process ends on the unhandled rejection while \<open>send\<close> is
  still pending: with the events delta \<open>A\<close>, error \<open>boom\<close>, \<open>streamGeneration\<close> does not
  reject with \<open>boom\<close>, and \<open>generate\<close> returns no failure.
\<close>

theorem early_error_event_ends_process:
  "fst (streamGeneration (connectedService ''gpt-4o'') (ContentPrompt Title) Title
      \<lparr>sendError = None,
       eventsDuringSend = [MessageDelta (Some ''A''), SessionError (Some ''boom'')],
       events = []\<rparr>)
     = Crashes \<and>
   fst (generate (connectedService ''gpt-4o'') Title False
      \<lparr>sendError = None,
       eventsDuringSend = [MessageDelta (Some ''A''), SessionError (Some ''boom'')],
       events = []\<rparr>)
     = Crashes"
proof -
  let ?s0 = "connectedService ''gpt-4o''"
  let ?early = "\<lparr>sendError = None,
       eventsDuringSend = [MessageDelta (Some ''A''), SessionError (Some ''boom'')],
       events = []\<rparr>"
  have c0: "session ?s0 \<noteq> None" by (rule connectedService_session)
  have m0: "\<not> hasCached ?s0 Title" by (simp add: hasCached_def connectedService_cache)
  have u0: "unhandledDuringSend ?s0 ?early"
    by (simp add: awaited_unhandled [OF connectedService_awaited] rejecting_def terminal_def)
  have a: "fst (streamGeneration ?s0 (ContentPrompt Title) Title ?early) = Crashes"
    using streamGeneration_outcome [OF c0, of "ContentPrompt Title" Title ?early] u0 by simp
  have b: "fst (generate ?s0 Title False ?early) = Crashes"
    using requestGeneration_outcome [OF c0, of Title ?early] u0 generate_miss [OF m0, of ?early]
    by simp
  from a b show ?thesis by simp
qed

lemma cleanOutput_examples:
  "cleanOutput [] = []" "cleanOutput ''Run Club'' = ''Run Club''"
  by (simp_all add: cleanOutput_def headingAt_def trim_def isWhiteSpace_def)

lemma generate_fresh:
  assumes "everyPromiseAwaited svc" and "\<not> hasCached svc ct" and "sendError reply = None"
    and "firstSettlement (eventsDuringSend reply @ events reply) = Some Resolved"
  shows "fst (generate svc ct False reply)
           = Resolves \<lparr>content = cleanOutput (concat (map deltaText
                                     (eventsDuringSend reply @ events reply))),
                        success = True, error = None\<rparr>"
    and "generatedContent (snd (generate svc ct False reply))
           = (generatedContent svc)(ct \<mapsto> cleanOutput (concat (map deltaText
                                     (eventsDuringSend reply @ events reply))))"
    and "backendCalls (snd (generate svc ct False reply))
           = backendCalls svc @ [Send (ContentPrompt ct)]"
    and "everyPromiseAwaited (snd (generate svc ct False reply))"
proof -
  from assms(1) have s0: "session svc \<noteq> None"
    by (auto simp: everyPromiseAwaited_def split: option.splits)
  then have s1: "session (svc\<lparr>spinner := SpinnerTextFor ct\<rparr>) \<noteq> None" by simp
  from assms(4) have nr: "\<not> rejecting (eventsDuringSend reply)"
    by (auto simp: rejecting_def firstSettlement_app split: option.splits settlement.splits)
  with assms(1) have nu: "\<not> unhandledDuringSend (svc\<lparr>spinner := SpinnerTextFor ct\<rparr>) reply"
    "\<not> unhandledAfterSend (svc\<lparr>spinner := SpinnerTextFor ct\<rparr>) reply"
    by (simp_all add: awaited_unhandled session_only)
  have o: "fst (streamGeneration (svc\<lparr>spinner := SpinnerTextFor ct\<rparr>) (ContentPrompt ct) ct reply)
      = Resolves (concat (map deltaText (eventsDuringSend reply @ events reply)))"
    using streamGeneration_outcome [OF s1, of "ContentPrompt ct" ct reply] assms(3,4) nu
    by (simp add: streamOutcome_def)
  have g: "generate svc ct False reply = requestGeneration svc ct reply"
    using assms(2) by (rule generate_miss)
  show "fst (generate svc ct False reply)
           = Resolves \<lparr>content = cleanOutput (concat (map deltaText
                                     (eventsDuringSend reply @ events reply))),
                        success = True, error = None\<rparr>"
    using g o requestGeneration_result [of svc ct reply] by simp
  show "generatedContent (snd (generate svc ct False reply))
           = (generatedContent svc)(ct \<mapsto> cleanOutput (concat (map deltaText
                                     (eventsDuringSend reply @ events reply))))"
    using g o requestGeneration_cache [of svc ct reply] by simp
  show "backendCalls (snd (generate svc ct False reply))
           = backendCalls svc @ [Send (ContentPrompt ct)]"
    using g s0 requestGeneration_calls [of svc ct reply] by simp
  show "everyPromiseAwaited (snd (generate svc ct False reply))"
    using g requestGeneration_awaited [OF assms(1,3) nr, of ct] by simp
qed

lemma generate_failed:
  assumes "everyPromiseAwaited svc" and "\<not> hasCached svc ct" and "sendError reply = None"
    and "eventsDuringSend reply = []"
    and "firstSettlement (events reply) = Some (Rejected m)"
  shows "fst (generate svc ct False reply)
           = Resolves \<lparr>content = [], success = False, error = Some m\<rparr>"
    and "generatedContent (snd (generate svc ct False reply)) = generatedContent svc"
    and "backendCalls (snd (generate svc ct False reply))
           = backendCalls svc @ [Send (ContentPrompt ct)]"
    and "everyPromiseAwaited (snd (generate svc ct False reply))"
proof -
  from assms(1) have s0: "session svc \<noteq> None"
    by (auto simp: everyPromiseAwaited_def split: option.splits)
  then have s1: "session (svc\<lparr>spinner := SpinnerTextFor ct\<rparr>) \<noteq> None" by simp
  from assms(4) have nr: "\<not> rejecting (eventsDuringSend reply)" by (simp add: rejecting_def)
  with assms(1) have nu: "\<not> unhandledDuringSend (svc\<lparr>spinner := SpinnerTextFor ct\<rparr>) reply"
    "\<not> unhandledAfterSend (svc\<lparr>spinner := SpinnerTextFor ct\<rparr>) reply"
    by (simp_all add: awaited_unhandled session_only)
  have o: "fst (streamGeneration (svc\<lparr>spinner := SpinnerTextFor ct\<rparr>) (ContentPrompt ct) ct reply)
      = Rejects m"
    using streamGeneration_outcome [OF s1, of "ContentPrompt ct" ct reply] assms(3,4,5) nu
    by (simp add: streamOutcome_def)
  have g: "generate svc ct False reply = requestGeneration svc ct reply"
    using assms(2) by (rule generate_miss)
  show "fst (generate svc ct False reply)
           = Resolves \<lparr>content = [], success = False, error = Some m\<rparr>"
    using g o requestGeneration_result [of svc ct reply] by simp
  show "generatedContent (snd (generate svc ct False reply)) = generatedContent svc"
    using g o requestGeneration_cache [of svc ct reply] by simp
  show "backendCalls (snd (generate svc ct False reply))
           = backendCalls svc @ [Send (ContentPrompt ct)]"
    using g s0 requestGeneration_calls [of svc ct reply] by simp
  show "everyPromiseAwaited (snd (generate svc ct False reply))"
    using g requestGeneration_awaited [OF assms(1,3) nr, of ct] by simp
qed

text \<open>
  C4, as the code has it. When the first \<open>generate\<close> of a content type without
  \<open>regenerate\<close> succeeds with a text that is not empty, a second one returns the same
  result and leaves the service as it is, so it sends nothing; the first call sends one
  request when no text that is not empty was cached for the content type, and none
  otherwise.
\<close>

theorem second_generate_is_cache_hit:
  "fst (generate svc ct False firstReply) = Resolves res \<and> success res \<and> content res \<noteq> [] \<longrightarrow>
     generate (snd (generate svc ct False firstReply)) ct False secondReply
       = (Resolves res, snd (generate svc ct False firstReply)) \<and>
     requestsSent (snd (generate svc ct False firstReply))
       = requestsSent svc @ (if hasCached svc ct then [] else [ContentPrompt ct])"
proof (intro impI, elim conjE)
  assume r: "fst (generate svc ct False firstReply) = Resolves res"
    and ok: "success res" and ne: "content res \<noteq> []"
  show "generate (snd (generate svc ct False firstReply)) ct False secondReply
       = (Resolves res, snd (generate svc ct False firstReply)) \<and>
     requestsSent (snd (generate svc ct False firstReply))
       = requestsSent svc @ (if hasCached svc ct then [] else [ContentPrompt ct])"
  proof (cases "hasCached svc ct")
    case True
    from generate_hit [OF True, of firstReply] r generate_hit [OF True, of secondReply] True
    show ?thesis by simp
  next
    case False
    let ?svc1 = "svc\<lparr>spinner := SpinnerTextFor ct\<rparr>"
    have g: "generate svc ct False firstReply = requestGeneration svc ct firstReply"
      using False by (rule generate_miss)
    obtain o1 svc2 where sg: "streamGeneration ?svc1 (ContentPrompt ct) ct firstReply = (o1, svc2)"
      by (cases "streamGeneration ?svc1 (ContentPrompt ct) ct firstReply")
    from r ok g requestGeneration_unfold [OF sg] obtain t where
      o1: "o1 = Resolves t" and res: "res = \<lparr>content = cleanOutput t, success = True, error = None\<rparr>"
      by (cases o1) auto
    have sess: "session svc \<noteq> None"
    proof
      assume "session svc = None"
      then have "streamGeneration ?svc1 (ContentPrompt ct) ct firstReply
          = (RejectsThenCrashes undefinedSessionMessage, ?svc1)"
        by (simp add: streamGeneration_no_session)
      with sg o1 show False by simp
    qed
    let ?s1 = "snd (generate svc ct False firstReply)"
    from g requestGeneration_unfold [OF sg] o1
    have s1: "?s1 = svc2\<lparr>generatedContent := (generatedContent svc2)(ct \<mapsto> cleanOutput t),
                spinner := SuccessTextFor ct\<rparr>" by simp
    from ne res have "cleanOutput t \<noteq> []" by simp
    with s1 have hit: "hasCached ?s1 ct" by (simp add: hasCached_def)
    from s1 have cached: "generatedContent ?s1 ct = Some (cleanOutput t)" by simp
    have calls: "backendCalls ?s1 = backendCalls svc @ [Send (ContentPrompt ct)]"
      using requestGeneration_calls [of svc ct firstReply] g sess by simp
    from generate_hit [OF hit, of secondReply] cached res calls False
    show ?thesis by (simp add: requestsSent_def)
  qed
qed


theorem second_generate_is_cache_hit_witness:
  "fst (generate (connectedService ''gpt-4o'') Title False
          \<lparr>sendError = None, eventsDuringSend = [],
           events = [MessageDelta (Some ''Run Club''), SessionIdle]\<rparr>)
     = Resolves \<lparr>content = ''Run Club'', success = True, error = None\<rparr> \<and>
   generate
     (snd (generate (connectedService ''gpt-4o'') Title False
          \<lparr>sendError = None, eventsDuringSend = [],
           events = [MessageDelta (Some ''Run Club''), SessionIdle]\<rparr>))
     Title False \<lparr>sendError = None, eventsDuringSend = [],
                  events = [MessageDelta (Some ''Other''), SessionIdle]\<rparr>
     = (Resolves \<lparr>content = ''Run Club'', success = True, error = None\<rparr>,
        snd (generate (connectedService ''gpt-4o'') Title False
          \<lparr>sendError = None, eventsDuringSend = [],
           events = [MessageDelta (Some ''Run Club''), SessionIdle]\<rparr>)) \<and>
   requestsSent
     (snd (generate (connectedService ''gpt-4o'') Title False
          \<lparr>sendError = None, eventsDuringSend = [],
           events = [MessageDelta (Some ''Run Club''), SessionIdle]\<rparr>))
     = [ContentPrompt Title]"
proof -
  let ?s0 = "connectedService ''gpt-4o''"
  let ?r1 = "\<lparr>sendError = None, eventsDuringSend = [],
              events = [MessageDelta (Some ''Run Club''), SessionIdle]\<rparr>"
  have m0: "\<not> hasCached ?s0 Title" by (simp add: hasCached_def connectedService_cache)
  have f1: "firstSettlement (eventsDuringSend ?r1 @ events ?r1) = Some Resolved"
    by (simp add: terminal_def)
  have a: "fst (generate ?s0 Title False ?r1)
      = Resolves \<lparr>content = ''Run Club'', success = True, error = None\<rparr>"
    using generate_fresh(1) [OF connectedService_awaited m0 _ f1]
    by (simp add: deltaText_def cleanOutput_examples)
  have z: "requestsSent ?s0 = []" by (simp add: requestsSent_def connectedService_calls)
  from a m0 z second_generate_is_cache_hit
    [where svc = ?s0 and ct = Title and firstReply = ?r1
       and res = "\<lparr>content = ''Run Club'', success = True, error = None\<rparr>"
       and secondReply = "\<lparr>sendError = None, eventsDuringSend = [],
                           events = [MessageDelta (Some ''Other''), SessionIdle]\<rparr>"]
  show ?thesis by simp
qed

text \<open>
  C4 as stated fails when the first text is empty after cleaning: it is cached, the cache
  test \<open>cached && !regenerate\<close> takes the empty text for no text, and the second call
  sends a second request and returns another text. It fails as well when the first
  generation fails, since a failure caches nothing: the second call sends a second request.
\<close>

theorem empty_text_is_requested_again:
  "fst (generate (connectedService ''gpt-4o'') Title False
          \<lparr>sendError = None, eventsDuringSend = [], events = [SessionIdle]\<rparr>)
     = Resolves \<lparr>content = [], success = True, error = None\<rparr> \<and>
   fst (generate
          (snd (generate (connectedService ''gpt-4o'') Title False
                  \<lparr>sendError = None, eventsDuringSend = [], events = [SessionIdle]\<rparr>))
          Title False
          \<lparr>sendError = None, eventsDuringSend = [],
           events = [MessageDelta (Some ''Run Club''), SessionIdle]\<rparr>)
     = Resolves \<lparr>content = ''Run Club'', success = True, error = None\<rparr> \<and>
   requestsSent
     (snd (generate
          (snd (generate (connectedService ''gpt-4o'') Title False
                  \<lparr>sendError = None, eventsDuringSend = [], events = [SessionIdle]\<rparr>))
          Title False
          \<lparr>sendError = None, eventsDuringSend = [],
           events = [MessageDelta (Some ''Run Club''), SessionIdle]\<rparr>))
     = [ContentPrompt Title, ContentPrompt Title] \<and>
   requestsSent
     (snd (generate
          (snd (generate (connectedService ''gpt-4o'') Title False
                  \<lparr>sendError = None, eventsDuringSend = [],
                   events = [SessionError (Some ''boom'')]\<rparr>))
          Title False
          \<lparr>sendError = None, eventsDuringSend = [],
           events = [MessageDelta (Some ''Run Club''), SessionIdle]\<rparr>))
     = [ContentPrompt Title, ContentPrompt Title]"
proof -
  let ?s0 = "connectedService ''gpt-4o''"
  let ?r1 = "\<lparr>sendError = None, eventsDuringSend = [], events = [SessionIdle]\<rparr>"
  let ?r2 = "\<lparr>sendError = None, eventsDuringSend = [],
              events = [MessageDelta (Some ''Run Club''), SessionIdle]\<rparr>"
  let ?r3 = "\<lparr>sendError = None, eventsDuringSend = [],
              events = [SessionError (Some ''boom'')]\<rparr>"
  let ?s1 = "snd (generate ?s0 Title False ?r1)"
  let ?s3 = "snd (generate ?s0 Title False ?r3)"
  have m0: "\<not> hasCached ?s0 Title" by (simp add: hasCached_def connectedService_cache)
  have f1: "firstSettlement (eventsDuringSend ?r1 @ events ?r1) = Some Resolved"
    by (simp add: terminal_def)
  have f2: "firstSettlement (eventsDuringSend ?r2 @ events ?r2) = Some Resolved"
    by (simp add: terminal_def)
  have f3: "firstSettlement (events ?r3) = Some (Rejected ''boom'')"
    by (simp add: terminal_def)
  note g1 = generate_fresh [OF connectedService_awaited m0 _ f1]
  have a: "fst (generate ?s0 Title False ?r1)
      = Resolves \<lparr>content = [], success = True, error = None\<rparr>"
    using g1(1) by (simp add: deltaText_def cleanOutput_examples)
  have c1: "generatedContent ?s1 Title = Some []"
    using g1(2) by (simp add: deltaText_def cleanOutput_examples)
  then have m1: "\<not> hasCached ?s1 Title" by (simp add: hasCached_def)
  have s1: "everyPromiseAwaited ?s1" using g1(4) by simp
  have k1: "backendCalls ?s1 = backendCalls ?s0 @ [Send (ContentPrompt Title)]"
    using g1(3) by simp
  note g2 = generate_fresh [OF s1 m1 _ f2]
  have b: "fst (generate ?s1 Title False ?r2)
      = Resolves \<lparr>content = ''Run Club'', success = True, error = None\<rparr>"
    using g2(1) by (simp add: deltaText_def cleanOutput_examples)
  have "backendCalls (snd (generate ?s1 Title False ?r2))
      = backendCalls ?s0 @ [Send (ContentPrompt Title), Send (ContentPrompt Title)]"
    using g2(3) k1 by simp
  then have c: "requestsSent (snd (generate ?s1 Title False ?r2))
      = [ContentPrompt Title, ContentPrompt Title]"
    by (simp add: requestsSent_def connectedService_calls)
  note g3 = generate_failed [OF connectedService_awaited m0 _ _ f3]
  have "generatedContent ?s3 = generatedContent ?s0" using g3(2) by simp
  then have m3: "\<not> hasCached ?s3 Title" by (simp add: hasCached_def connectedService_cache)
  have s3: "everyPromiseAwaited ?s3" using g3(4) by simp
  have k3: "backendCalls ?s3 = backendCalls ?s0 @ [Send (ContentPrompt Title)]"
    using g3(3) by simp
  have "backendCalls (snd (generate ?s3 Title False ?r2))
      = backendCalls ?s0 @ [Send (ContentPrompt Title), Send (ContentPrompt Title)]"
    using generate_fresh(3) [OF s3 m3 _ f2] k3 by simp
  then have d: "requestsSent (snd (generate ?s3 Title False ?r2))
      = [ContentPrompt Title, ContentPrompt Title]"
    by (simp add: requestsSent_def connectedService_calls)
  from a b c d show ?thesis by simp
qed

text \<open>
  C9. With \<open>regenerate\<close>, \<open>generate\<close> deletes the cached entry and then makes the request
  on the service without it. When that generation fails, on a service with a session, the
  entry stays deleted, and a following \<open>generate\<close> without \<open>regenerate\<close> makes a request
  of its own: the backend has then been sent two prompts.
\<close>

theorem failed_regenerate_loses_cache:
  "session svc \<noteq> None \<and> fst (generate svc ct True firstReply) = Resolves res \<and> \<not> success res \<longrightarrow>
     generate svc ct True firstReply
       = requestGeneration (svc\<lparr>generatedContent := (generatedContent svc)(ct := None)\<rparr>) ct firstReply \<and>
     generatedContent (snd (generate svc ct True firstReply)) ct = None \<and>
     generate (snd (generate svc ct True firstReply)) ct False secondReply
       = requestGeneration (snd (generate svc ct True firstReply)) ct secondReply \<and>
     backendCalls (snd (generate (snd (generate svc ct True firstReply)) ct False secondReply))
       = backendCalls svc @ [Send (ContentPrompt ct), Send (ContentPrompt ct)]"
proof (intro impI, elim conjE)
  assume sess: "session svc \<noteq> None"
    and r: "fst (generate svc ct True firstReply) = Resolves res" and fail: "\<not> success res"
  let ?svc0 = "svc\<lparr>generatedContent := (generatedContent svc)(ct := None)\<rparr>"
  let ?svc1 = "?svc0\<lparr>spinner := SpinnerTextFor ct\<rparr>"
  let ?s1 = "snd (generate svc ct True firstReply)"
  have g: "generate svc ct True firstReply = requestGeneration ?svc0 ct firstReply"
    by (rule generate_regenerate)
  from sess have sess0: "session ?svc0 \<noteq> None" by simp
  obtain o1 svc2 where sg: "streamGeneration ?svc1 (ContentPrompt ct) ct firstReply = (o1, svc2)"
    by (cases "streamGeneration ?svc1 (ContentPrompt ct) ct firstReply")
  from r fail g requestGeneration_unfold [OF sg] obtain m where o1: "o1 = Rejects m"
    by (cases o1) auto
  have c: "generatedContent ?s1 = generatedContent ?svc0"
    using requestGeneration_cache [of ?svc0 ct firstReply] g sg o1 by simp
  then have none: "generatedContent ?s1 ct = None" by simp
  then have miss: "\<not> hasCached ?s1 ct" by (simp add: hasCached_def)
  have s1: "session ?s1 \<noteq> None"
    using requestGeneration_session [OF sess0, of ct firstReply] g by simp
  have k1: "backendCalls ?s1 = backendCalls svc @ [Send (ContentPrompt ct)]"
    using requestGeneration_calls [of ?svc0 ct firstReply] g sess by simp
  have g2: "generate ?s1 ct False secondReply = requestGeneration ?s1 ct secondReply"
    using miss by (rule generate_miss)
  have k2: "backendCalls (snd (generate ?s1 ct False secondReply))
      = backendCalls svc @ [Send (ContentPrompt ct), Send (ContentPrompt ct)]"
    using requestGeneration_calls [of ?s1 ct secondReply] g2 s1 k1 by simp
  from g none g2 k2 show "generate svc ct True firstReply
       = requestGeneration (svc\<lparr>generatedContent := (generatedContent svc)(ct := None)\<rparr>) ct firstReply \<and>
     generatedContent (snd (generate svc ct True firstReply)) ct = None \<and>
     generate (snd (generate svc ct True firstReply)) ct False secondReply
       = requestGeneration (snd (generate svc ct True firstReply)) ct secondReply \<and>
     backendCalls (snd (generate (snd (generate svc ct True firstReply)) ct False secondReply))
       = backendCalls svc @ [Send (ContentPrompt ct), Send (ContentPrompt ct)]"
    by simp
qed

theorem failed_regenerate_loses_cache_witness:
  "generatedContent ((connectedService ''gpt-4o'')\<lparr>generatedContent := [Title \<mapsto> ''Old Title'']\<rparr>)
     Title = Some ''Old Title'' \<and>
   fst (generate ((connectedService ''gpt-4o'')\<lparr>generatedContent := [Title \<mapsto> ''Old Title'']\<rparr>)
          Title True \<lparr>sendError = None, eventsDuringSend = [],
                      events = [SessionError (Some ''boom'')]\<rparr>)
     = Resolves \<lparr>content = [], success = False, error = Some ''boom''\<rparr> \<and>
   generatedContent
     (snd (generate ((connectedService ''gpt-4o'')\<lparr>generatedContent := [Title \<mapsto> ''Old Title'']\<rparr>)
          Title True \<lparr>sendError = None, eventsDuringSend = [],
                      events = [SessionError (Some ''boom'')]\<rparr>))
     Title = None \<and>
   requestsSent
     (snd (generate
       (snd (generate ((connectedService ''gpt-4o'')\<lparr>generatedContent := [Title \<mapsto> ''Old Title'']\<rparr>)
          Title True \<lparr>sendError = None, eventsDuringSend = [],
                      events = [SessionError (Some ''boom'')]\<rparr>))
       Title False \<lparr>sendError = None, eventsDuringSend = [], events = [SessionIdle]\<rparr>))
     = [ContentPrompt Title, ContentPrompt Title]"
proof -
  let ?s0 = "(connectedService ''gpt-4o'')\<lparr>generatedContent := [Title \<mapsto> ''Old Title'']\<rparr>"
  let ?r = "\<lparr>sendError = None, eventsDuringSend = [],
             events = [SessionError (Some ''boom'')]\<rparr>"
  let ?del = "?s0\<lparr>generatedContent := (generatedContent ?s0)(Title := None)\<rparr>"
  have sess: "session ?s0 \<noteq> None" using connectedService_session [of "''gpt-4o''"] by simp
  have aw: "everyPromiseAwaited ?del"
    using connectedService_awaited [of "''gpt-4o''"] by (simp add: everyPromiseAwaited_def)
  have mi: "\<not> hasCached ?del Title" by (simp add: hasCached_def)
  have f: "firstSettlement (events ?r) = Some (Rejected ''boom'')" by (simp add: terminal_def)
  have "generate ?del Title False ?r = requestGeneration ?del Title ?r"
    using mi by (rule generate_miss)
  with generate_failed(1) [OF aw mi _ _ f] generate_regenerate [of ?s0 Title ?r]
  have a: "fst (generate ?s0 Title True ?r)
      = Resolves \<lparr>content = [], success = False, error = Some ''boom''\<rparr>"
    by simp
  have k: "backendCalls ?s0 = backendCalls (connectedService ''gpt-4o'')" by simp
  let ?s1 = "snd (generate ?s0 Title True ?r)"
  let ?q = "\<lparr>sendError = None, eventsDuringSend = [], events = [SessionIdle]\<rparr>"
  let ?res = "\<lparr>content = [], success = False, error = Some ''boom''\<rparr>"
  from sess a have hyp:
    "session ?s0 \<noteq> None \<and> fst (generate ?s0 Title True ?r) = Resolves ?res \<and> \<not> success ?res"
    by simp
  note concl = failed_regenerate_loses_cache
      [where svc = ?s0 and ct = Title and firstReply = ?r and res = ?res and secondReply = ?q,
       THEN mp, OF hyp]
  from concl have none: "generatedContent ?s1 Title = None" by (elim conjE)
  from concl have calls: "backendCalls (snd (generate ?s1 Title False ?q))
       = backendCalls ?s0 @ [Send (ContentPrompt Title), Send (ContentPrompt Title)]"
    by (elim conjE)
  from calls k have "requestsSent (snd (generate ?s1 Title False ?q))
       = [ContentPrompt Title, ContentPrompt Title]"
    by (simp add: requestsSent_def connectedService_calls)
  with a none show ?thesis by simp
qed

section \<open>Properties of model switching\<close>

lemma destroySession_swallows: "destroySession (Throws x) svc = destroySession (Returns ()) svc"
  by (simp add: destroySession_def)

lemma destroySession_fields:
  "client (destroySession d svc) = client svc"
  "currentModel (destroySession d svc) = currentModel svc"
  "session (destroySession d svc) = map_option (\<lambda>s. s\<lparr>destroyCalled := True\<rparr>) (session svc)"
  "backendCalls (destroySession d svc)
     = backendCalls svc @ (if session svc = None then [] else [DestroySession])"
  "generatedContent (destroySession d svc) = generatedContent svc"
  by (simp_all add: destroySession_def split: option.splits)

text \<open>
  C3, as the code has it. For a model other than the current one, on a service with a
  client, \<open>switchModel\<close> calls \<open>destroy\<close> on the session it has, whatever \<open>destroy\<close>
  does, then sets the current model to the new one, and then creates a session with the
  new model and the tool servers and system message that \<open>initialize\<close> uses. When
  \<open>createSession\<close> throws, the error goes to the caller, the current model is the new
  model, and the service keeps the handle of the old session, on which \<open>destroy\<close> has been
  called.
\<close>

theorem switchModel_sets_model_then_creates:
  "newModel \<noteq> currentModel svc \<and> client svc \<noteq> None \<longrightarrow>
     fst (switchModel svc newModel destroyed (Throws e)) = Rejects e \<and>
     currentModel (snd (switchModel svc newModel destroyed (Throws e))) = newModel \<and>
     session (snd (switchModel svc newModel destroyed (Throws e)))
       = map_option (\<lambda>s. s\<lparr>destroyCalled := True\<rparr>) (session svc) \<and>
     fst (switchModel svc newModel destroyed (Returns ())) = Resolves () \<and>
     currentModel (snd (switchModel svc newModel destroyed (Returns ()))) = newModel \<and>
     session (snd (switchModel svc newModel destroyed (Returns ())))
       = Some \<lparr>config = \<lparr>model = newModel, streaming = True, mcpServers = MCP_SERVERS,
                            systemMessage = (''append'', SYSTEM_PROMPT_ASO)\<rparr>,
               handlers = [], destroyCalled = False\<rparr> \<and>
     map_option config (session (snd (switchModel svc newModel destroyed (Returns ()))))
       = map_option (\<lambda>s. (config s)\<lparr>model := newModel\<rparr>) (session (connectedService anyModel)) \<and>
     backendCalls (snd (switchModel svc newModel destroyed created))
       = backendCalls svc @ (if session svc = None then [] else [DestroySession])
         @ [CreateSession \<lparr>model = newModel, streaming = True, mcpServers = MCP_SERVERS,
                           systemMessage = (''append'', SYSTEM_PROMPT_ASO)\<rparr>] \<and>
     switchModel svc newModel (Throws x) created = switchModel svc newModel (Returns ()) created"
proof (intro impI, elim conjE)
  assume n: "newModel \<noteq> currentModel svc" and c: "client svc \<noteq> None"
  then obtain cl where cl: "client svc = Some cl" by auto
  have sw: "switchModel svc newModel (Throws x) created = switchModel svc newModel (Returns ()) created"
    by (simp add: switchModel_def destroySession_swallows)
  have calls: "backendCalls (snd (switchModel svc newModel destroyed created))
       = backendCalls svc @ (if session svc = None then [] else [DestroySession])
         @ [CreateSession \<lparr>model = newModel, streaming = True, mcpServers = MCP_SERVERS,
                           systemMessage = (''append'', SYSTEM_PROMPT_ASO)\<rparr>]"
    using n cl by (cases created) (simp_all add: switchModel_def Let_def destroySession_fields)
  from n cl sw calls show "fst (switchModel svc newModel destroyed (Throws e)) = Rejects e \<and>
     currentModel (snd (switchModel svc newModel destroyed (Throws e))) = newModel \<and>
     session (snd (switchModel svc newModel destroyed (Throws e)))
       = map_option (\<lambda>s. s\<lparr>destroyCalled := True\<rparr>) (session svc) \<and>
     fst (switchModel svc newModel destroyed (Returns ())) = Resolves () \<and>
     currentModel (snd (switchModel svc newModel destroyed (Returns ()))) = newModel \<and>
     session (snd (switchModel svc newModel destroyed (Returns ())))
       = Some \<lparr>config = \<lparr>model = newModel, streaming = True, mcpServers = MCP_SERVERS,
                            systemMessage = (''append'', SYSTEM_PROMPT_ASO)\<rparr>,
               handlers = [], destroyCalled = False\<rparr> \<and>
     map_option config (session (snd (switchModel svc newModel destroyed (Returns ()))))
       = map_option (\<lambda>s. (config s)\<lparr>model := newModel\<rparr>) (session (connectedService anyModel)) \<and>
     backendCalls (snd (switchModel svc newModel destroyed created))
       = backendCalls svc @ (if session svc = None then [] else [DestroySession])
         @ [CreateSession \<lparr>model = newModel, streaming = True, mcpServers = MCP_SERVERS,
                           systemMessage = (''append'', SYSTEM_PROMPT_ASO)\<rparr>] \<and>
     switchModel svc newModel (Throws x) created = switchModel svc newModel (Returns ()) created"
    by (simp add: switchModel_def Let_def destroySession_fields connectedService_fields)
qed

theorem switchModel_sets_model_then_creates_witness:
  "fst (switchModel (connectedService ''gpt-4o'') ''gpt-4.1'' (Throws ''gone'') (Returns ()))
     = Resolves () \<and>
   currentModel (snd (switchModel (connectedService ''gpt-4o'') ''gpt-4.1'' (Throws ''gone'') (Returns ())))
     = ''gpt-4.1'' \<and>
   session (snd (switchModel (connectedService ''gpt-4o'') ''gpt-4.1'' (Throws ''gone'') (Returns ())))
     = Some \<lparr>config = \<lparr>model = ''gpt-4.1'', streaming = True, mcpServers = MCP_SERVERS,
                          systemMessage = (''append'', SYSTEM_PROMPT_ASO)\<rparr>,
             handlers = [], destroyCalled = False\<rparr> \<and>
   fst (switchModel (connectedService ''gpt-4o'') ''gpt-4.1'' (Throws ''gone'') (Throws ''boom''))
     = Rejects ''boom'' \<and>
   currentModel (snd (switchModel (connectedService ''gpt-4o'') ''gpt-4.1'' (Throws ''gone'') (Throws ''boom'')))
     = ''gpt-4.1''"
proof -
  have hyp: "''gpt-4.1'' \<noteq> currentModel (connectedService ''gpt-4o'') \<and>
      client (connectedService ''gpt-4o'') \<noteq> None"
    by (simp add: connectedService_fields)
  note concl = switchModel_sets_model_then_creates
      [where svc = "connectedService ''gpt-4o''" and newModel = "''gpt-4.1''"
         and destroyed = "Throws ''gone''" and e = "''boom''", THEN mp, OF hyp]
  from concl show ?thesis by blast
qed

text \<open>
  C3 as stated fails: after a switch whose \<open>createSession\<close> throws, the current model is
  the new model, not the previous one, and the session field still holds the old handle.
\<close>

theorem failed_switch_keeps_new_model:
  "currentModel (connectedService ''gpt-4o'') = ''gpt-4o'' \<and>
   fst (switchModel (connectedService ''gpt-4o'') ''gpt-4.1'' (Returns ()) (Throws ''boom''))
     = Rejects ''boom'' \<and>
   currentModel (snd (switchModel (connectedService ''gpt-4o'') ''gpt-4.1'' (Returns ()) (Throws ''boom'')))
     = ''gpt-4.1'' \<and>
   session (snd (switchModel (connectedService ''gpt-4o'') ''gpt-4.1'' (Returns ()) (Throws ''boom'')))
     = Some \<lparr>config = \<lparr>model = ''gpt-4o'', streaming = True, mcpServers = MCP_SERVERS,
                          systemMessage = (''append'', SYSTEM_PROMPT_ASO)\<rparr>,
             handlers = [], destroyCalled = True\<rparr>"
  by (simp add: switchModel_def Let_def destroySession_def connectedService_fields)

section \<open>Properties of the interrupt protocol\<close>

lemma handleCtrlC_outside_window:
  "1000 \<le> now - lastCtrlCTime p \<Longrightarrow>
     handleCtrlC now td p
       = p\<lparr>lastCtrlCTime := now, console := console p @ [BlankLine, PressAgainLine]\<rparr>"
  by (simp add: handleCtrlC_def shouldExitOnCtrlC_def DOUBLE_CTRL_C_WINDOW_MS_def)

lemma handleCtrlC_inside_window:
  "now - lastCtrlCTime p < 1000 \<Longrightarrow>
     handleCtrlC now td p
       = p\<lparr>lastCtrlCTime := lastCtrlCTime p,
           console := console p @ [BlankLine] @ printGoodbye,
           service := map_option
             (\<lambda>svc. cleanup svc (destroyResult td) (stopResult td) (forceStopResult td))
             (service p),
           exitCode := Some 0\<rparr>"
  by (simp add: handleCtrlC_def shouldExitOnCtrlC_def DOUBLE_CTRL_C_WINDOW_MS_def)

text \<open>
  C8. In a process that has seen no interrupt yet, with a clock that reads at least 1000
  (one second after the epoch; \<open>lastCtrlCTime\<close> starts at 0), a first interrupt does not
  end the process: it prints the hint and records its time. A second interrupt less than
  1000 ms after the first runs \<open>cleanup\<close> on the service and ends the process with exit
  code 0; a second interrupt 1000 ms or more after the first does not end the process,
  prints the hint again and records its time in turn.
\<close>

theorem double_interrupt_protocol:
  "lastCtrlCTime p = 0 \<and> exitCode p = None \<and> 1000 \<le> first \<longrightarrow>
     exitCode (interrupts [first] td p) = None \<and>
     console (interrupts [first] td p) = console p @ [BlankLine, PressAgainLine] \<and>
     lastCtrlCTime (interrupts [first] td p) = first \<and>
     (second - first < 1000 \<longrightarrow>
        exitCode (interrupts [first, second] td p) = Some 0 \<and>
        service (interrupts [first, second] td p)
          = map_option
              (\<lambda>svc. cleanup svc (destroyResult td) (stopResult td) (forceStopResult td))
              (service p) \<and>
        console (interrupts [first, second] td p)
          = console p @ [BlankLine, PressAgainLine, BlankLine] @ printGoodbye) \<and>
     (1000 \<le> second - first \<longrightarrow>
        exitCode (interrupts [first, second] td p) = None \<and>
        console (interrupts [first, second] td p)
          = console p @ [BlankLine, PressAgainLine, BlankLine, PressAgainLine] \<and>
        lastCtrlCTime (interrupts [first, second] td p) = second)"
proof (intro impI, elim conjE)
  assume l: "lastCtrlCTime p = 0" and e: "exitCode p = None" and f: "1000 \<le> first"
  let ?p1 = "p\<lparr>lastCtrlCTime := first, console := console p @ [BlankLine, PressAgainLine]\<rparr>"
  from l f have h1: "handleCtrlC first td p = ?p1"
    using handleCtrlC_outside_window [where p = p and now = first and td = td] by simp
  have one: "interrupts [first] td p = ?p1" using e h1 by simp
  have two: "interrupts [first, second] td p = handleCtrlC second td ?p1"
    using e h1 by simp
  have inside: "exitCode (interrupts [first, second] td p) = Some 0 \<and>
        service (interrupts [first, second] td p)
          = map_option
              (\<lambda>svc. cleanup svc (destroyResult td) (stopResult td) (forceStopResult td))
              (service p) \<and>
        console (interrupts [first, second] td p)
          = console p @ [BlankLine, PressAgainLine, BlankLine] @ printGoodbye"
    if "second - first < 1000"
    using that two handleCtrlC_inside_window [where p = ?p1 and now = second and td = td] by simp
  have outside: "exitCode (interrupts [first, second] td p) = None \<and>
        console (interrupts [first, second] td p)
          = console p @ [BlankLine, PressAgainLine, BlankLine, PressAgainLine] \<and>
        lastCtrlCTime (interrupts [first, second] td p) = second"
    if "1000 \<le> second - first"
    using that two e handleCtrlC_outside_window [where p = ?p1 and now = second and td = td] by simp
  from one e inside outside
  show "exitCode (interrupts [first] td p) = None \<and>
     console (interrupts [first] td p) = console p @ [BlankLine, PressAgainLine] \<and>
     lastCtrlCTime (interrupts [first] td p) = first \<and>
     (second - first < 1000 \<longrightarrow>
        exitCode (interrupts [first, second] td p) = Some 0 \<and>
        service (interrupts [first, second] td p)
          = map_option
              (\<lambda>svc. cleanup svc (destroyResult td) (stopResult td) (forceStopResult td))
              (service p) \<and>
        console (interrupts [first, second] td p)
          = console p @ [BlankLine, PressAgainLine, BlankLine] @ printGoodbye) \<and>
     (1000 \<le> second - first \<longrightarrow>
        exitCode (interrupts [first, second] td p) = None \<and>
        console (interrupts [first, second] td p)
          = console p @ [BlankLine, PressAgainLine, BlankLine, PressAgainLine] \<and>
        lastCtrlCTime (interrupts [first, second] td p) = second)"
    by simp
qed

theorem double_interrupt_protocol_witness:
  "exitCode (interrupts [1767225600000]
       \<lparr>destroyResult = Returns (), stopResult = Throws ''stuck'', forceStopResult = Returns ()\<rparr>
       (startProcess\<lparr>service := Some (connectedService ''gpt-4o'')\<rparr>))
     = None \<and>
   exitCode (interrupts [1767225600000, 1767225600400]
       \<lparr>destroyResult = Returns (), stopResult = Throws ''stuck'', forceStopResult = Returns ()\<rparr>
       (startProcess\<lparr>service := Some (connectedService ''gpt-4o'')\<rparr>))
     = Some 0 \<and>
   map_option backendCalls (service (interrupts [1767225600000, 1767225600400]
       \<lparr>destroyResult = Returns (), stopResult = Throws ''stuck'', forceStopResult = Returns ()\<rparr>
       (startProcess\<lparr>service := Some (connectedService ''gpt-4o'')\<rparr>)))
     = Some (backendCalls (connectedService ''gpt-4o'')
             @ [DestroySession, ClientStop, ClientForceStop]) \<and>
   exitCode (interrupts [1767225600000, 1767225601500]
       \<lparr>destroyResult = Returns (), stopResult = Throws ''stuck'', forceStopResult = Returns ()\<rparr>
       (startProcess\<lparr>service := Some (connectedService ''gpt-4o'')\<rparr>))
     = None"
proof -
  let ?p = "startProcess\<lparr>service := Some (connectedService ''gpt-4o'')\<rparr>"
  let ?td = "\<lparr>destroyResult = Returns (), stopResult = Throws ''stuck'',
             forceStopResult = Returns ()\<rparr>"
  have hyp: "lastCtrlCTime ?p = 0 \<and> exitCode ?p = None \<and> (1000::int) \<le> 1767225600000"
    by (simp add: startProcess_def)
  note a = double_interrupt_protocol
      [where p = ?p and first = 1767225600000 and second = 1767225600400 and td = ?td,
       THEN mp, OF hyp]
  note b = double_interrupt_protocol
      [where p = ?p and first = 1767225600000 and second = 1767225601500 and td = ?td,
       THEN mp, OF hyp]
  from a have a1: "exitCode (interrupts [1767225600000] ?td ?p) = None" by (elim conjE)
  from a have a2: "exitCode (interrupts [1767225600000, 1767225600400] ?td ?p) = Some 0"
    by (simp del: interrupts.simps)
  from a have "service (interrupts [1767225600000, 1767225600400] ?td ?p)
      = Some (cleanup (connectedService ''gpt-4o'') (Returns ()) (Throws ''stuck'') (Returns ()))"
    by (simp del: interrupts.simps add: startProcess_def)
  then have a3: "map_option backendCalls (service (interrupts [1767225600000, 1767225600400] ?td ?p))
      = Some (backendCalls (connectedService ''gpt-4o'')
              @ [DestroySession, ClientStop, ClientForceStop])"
    by (simp del: interrupts.simps
          add: cleanup_def Let_def destroySession_fields connectedService_fields)
  from b have b2: "exitCode (interrupts [1767225600000, 1767225601500] ?td ?p) = None"
    by (simp del: interrupts.simps)
  from a1 a2 a3 b2 show ?thesis by simp
qed

end
